theory Spec2Isabelle
  imports Complex_Main "HOL-Library.Sublist"
begin

section \<open>Notification sender (utils/slack-notify.js, sendSlackNotification)\<close>

text \<open>
  The sender reads the module constant \<open>SLACK_WEBHOOK_URL\<close> (an environment variable:
  absent, or a string), serialises the message with \<open>JSON.stringify\<close> and posts it with
  \<open>fetch\<close>. Everything outside the function is a parameter of the model: the variable,
  the serialiser (which throws a TypeError on a cyclic value or a BigInt) and the
  network. The console and the network are observed through the list of effects the call
  performs, in order. The result is a sum, so that an exception leaving the function
  would be an \<open>Inl\<close>.
\<close>

datatype js_error = TypeError | AssertionFailure | MatcherError | Error string

text \<open>JavaScript truthiness of a value that is \<open>undefined\<close> or a string.\<close>

fun truthy :: "string option \<Rightarrow> bool" where
  "truthy None = False"
| "truthy (Some s) = (s \<noteq> [])"

record response =
  status :: nat
  statusText :: string

text \<open>\<open>response.ok\<close> of the Fetch API: the status is in the range 200 to 299.\<close>

definition ok :: "response \<Rightarrow> bool" where
  "ok r = (200 \<le> status r \<and> status r \<le> 299)"

datatype fetch_outcome = Rejected string | Fulfilled response

record request =
  req_method :: string
  req_headers :: "(string \<times> string) list"
  req_body :: string

datatype log_message =
    WebhookUrlNotSet
  | ExportHint
  | SendSucceeded
  | SendFailed nat string
  | SendError string

datatype effect =
    ConsoleError log_message
  | ConsoleLog log_message
  | Fetch string request

fun is_fetch :: "effect \<Rightarrow> bool" where
  "is_fetch (Fetch u r) = True"
| "is_fetch e = False"

definition post_request :: "string \<Rightarrow> request" where
  "post_request b =
     \<lparr>req_method = ''POST'',
      req_headers = [(''Content-Type'', ''application/json'')],
      req_body = b\<rparr>"

definition not_configured :: "effect list \<times> (js_error + bool)" where
  "not_configured = ([ConsoleError WebhookUrlNotSet, ConsoleLog ExportHint], Inr False)"

definition sendSlackNotification ::
  "string option \<Rightarrow> ('m \<Rightarrow> string + string) \<Rightarrow> (string \<Rightarrow> request \<Rightarrow> fetch_outcome) \<Rightarrow> 'm
     \<Rightarrow> effect list \<times> (js_error + bool)" where
  "sendSlackNotification SLACK_WEBHOOK_URL stringify fetch message =
     (case SLACK_WEBHOOK_URL of
        None \<Rightarrow> not_configured
      | Some url \<Rightarrow>
          if url = [] then not_configured
          else
            (case stringify message of
               Inl msg \<Rightarrow> ([ConsoleError (SendError msg)], Inr False)
             | Inr b \<Rightarrow>
                 (case fetch url (post_request b) of
                    Rejected msg \<Rightarrow>
                      ([Fetch url (post_request b), ConsoleError (SendError msg)], Inr False)
                  | Fulfilled r \<Rightarrow>
                      if ok r
                      then ([Fetch url (post_request b), ConsoleLog SendSucceeded], Inr True)
                      else ([Fetch url (post_request b),
                             ConsoleError (SendFailed (status r) (statusText r))], Inr False))))"

section \<open>Notification formatter (utils/slack-notify.js, createSlackMessage)\<close>

text \<open>
  A test-run summary holds three counts and a duration in seconds. The counts are
  integers; the duration and the pass rate are exact rationals: the binary rounding of
  JavaScript's doubles is not modelled, nor the exponent notation \<open>toFixed\<close> switches to
  from \<open>1e21\<close> on. Strings are byte lists; the Chinese labels of the source are
  written as their UTF-8 bytes.
\<close>

record results =
  passed :: int
  failed :: int
  skipped :: int
  duration :: rat

record options =
  projectName :: "string option"
  branch :: "string option"
  runUrl :: "string option"

text \<open>The variables of \<open>process.env\<close> the formatter reads; \<open>None\<close> is \<open>undefined\<close>.\<close>

record environment =
  GITHUB_REF_NAME :: "string option"
  GITHUB_SERVER_URL :: "string option"
  GITHUB_REPOSITORY :: "string option"
  GITHUB_RUN_ID :: "string option"

text \<open>The omitted second argument: \<open>options = {}\<close>.\<close>

definition no_options :: options where
  "no_options = \<lparr>projectName = None, branch = None, runUrl = None\<rparr>"

text \<open>\<open>a || b\<close> on values that are \<open>undefined\<close> or strings.\<close>

definition js_or :: "string option \<Rightarrow> string option \<Rightarrow> string option" where
  "js_or a b = (if truthy a then a else b)"

text \<open>A template literal's \<open>${v}\<close> for such a value: \<open>undefined\<close> prints as its name.\<close>

fun interpolate :: "string option \<Rightarrow> string" where
  "interpolate None = ''undefined''"
| "interpolate (Some s) = s"

text \<open>Decimal digits of a natural number, and \<open>String(n)\<close> for an integer.\<close>

function showNat :: "nat \<Rightarrow> string" where
  "showNat n =
     (if n < 10 then [''0123456789'' ! n]
      else showNat (n div 10) @ [''0123456789'' ! (n mod 10)])"
  by pat_completeness auto
termination
  by (relation "measure id") auto

declare showNat.simps [simp del]

definition showInt :: "int \<Rightarrow> string" where
  "showInt i = (if i < 0 then CHR ''-'' # showNat (nat (- i)) else showNat (nat i))"

text \<open>
  A JavaScript number that is finite, or one of the three values a division by zero
  produces. Division and multiplication as the pass-rate expression uses them.
\<close>

datatype number = Num rat | NaN | PosInfinity | NegInfinity

fun js_divide :: "number \<Rightarrow> number \<Rightarrow> number" where
  "js_divide (Num a) (Num b) =
     (if b = 0 then (if a = 0 then NaN else if 0 < a then PosInfinity else NegInfinity)
      else Num (a / b))"
| "js_divide x y = NaN"

fun js_times :: "number \<Rightarrow> number \<Rightarrow> number" where
  "js_times (Num a) (Num b) = Num (a * b)"
| "js_times PosInfinity (Num b) = (if b = 0 then NaN else if 0 < b then PosInfinity else NegInfinity)"
| "js_times NegInfinity (Num b) = (if b = 0 then NaN else if 0 < b then NegInfinity else PosInfinity)"
| "js_times x y = NaN"

text \<open>
  \<open>x.toFixed(1)\<close>: the sign, then the integer \<open>n\<close> for which \<open>n / 10\<close> is nearest to \<open>|x|\<close>
  (the larger one on a tie), printed with one digit after the point.
\<close>

fun toFixed1 :: "number \<Rightarrow> string" where
  "toFixed1 (Num x) =
     (let n = nat \<lfloor>\<bar>x\<bar> * 10 + 1 / 2\<rfloor>
      in (if x < 0 then ''-'' else []) @ showNat (n div 10) @ ''.'' @ showNat (n mod 10))"
| "toFixed1 NaN = ''NaN''"
| "toFixed1 PosInfinity = ''Infinity''"
| "toFixed1 NegInfinity = ''-Infinity''"

text \<open>The message blocks of the webhook payload.\<close>

datatype text_object = PlainText string bool | Mrkdwn string

record button =
  btn_text :: text_object
  btn_url :: string
  btn_style :: string

datatype block =
    Header text_object
  | Section "text_object list"
  | Context "text_object list"
  | Actions "button list"

record attachment =
  color :: string
  blocks :: "block list"

record slack_message =
  attachments :: "attachment list"

definition lbl_header_suffix :: string where
  "lbl_header_suffix =
     '' - '' @ [CHR 0xE6, CHR 0xB8, CHR 0xAC, CHR 0xE8, CHR 0xA9, CHR 0xA6,
               CHR 0xE7, CHR 0xB5, CHR 0x90, CHR 0xE6, CHR 0x9E, CHR 0x9C]"

definition lbl_status :: string where
  "lbl_status = ''*'' @ [CHR 0xE7, CHR 0x8B, CHR 0x80, CHR 0xE6, CHR 0x85, CHR 0x8B] @ '':*'' @ [CHR 0x0A]"

text \<open>The two values of the status field: "passed" with \<open>:tada:\<close>, "failed" with \<open>:warning:\<close>.\<close>

definition lbl_status_passed :: string where
  "lbl_status_passed = [CHR 0xE9, CHR 0x80, CHR 0x9A, CHR 0xE9, CHR 0x81, CHR 0x8E] @ '' :tada:''"

definition lbl_status_failed :: string where
  "lbl_status_failed = [CHR 0xE5, CHR 0xA4, CHR 0xB1, CHR 0xE6, CHR 0x95, CHR 0x97] @ '' :warning:''"

definition lbl_branch :: string where
  "lbl_branch = ''*'' @ [CHR 0xE5, CHR 0x88, CHR 0x86, CHR 0xE6, CHR 0x94, CHR 0xAF] @ '':*'' @ [CHR 0x0A, CHR 0x60]"

definition lbl_passed :: string where
  "lbl_passed = ''*'' @ [CHR 0xE9, CHR 0x80, CHR 0x9A, CHR 0xE9, CHR 0x81, CHR 0x8E] @ '':*'' @ [CHR 0x0A]"

definition lbl_failed :: string where
  "lbl_failed = ''*'' @ [CHR 0xE5, CHR 0xA4, CHR 0xB1, CHR 0xE6, CHR 0x95, CHR 0x97] @ '':*'' @ [CHR 0x0A]"

definition lbl_skipped :: string where
  "lbl_skipped = ''*'' @ [CHR 0xE8, CHR 0xB7, CHR 0xB3, CHR 0xE9, CHR 0x81, CHR 0x8E] @ '':*'' @ [CHR 0x0A]"

definition lbl_tests :: string where
  "lbl_tests = '' '' @ [CHR 0xE5, CHR 0x80, CHR 0x8B, CHR 0xE6, CHR 0xB8, CHR 0xAC, CHR 0xE8, CHR 0xA9, CHR 0xA6]"

definition lbl_duration :: string where
  "lbl_duration =
     ''*'' @ [CHR 0xE5, CHR 0x9F, CHR 0xB7, CHR 0xE8, CHR 0xA1, CHR 0x8C,
             CHR 0xE6, CHR 0x99, CHR 0x82, CHR 0xE9, CHR 0x96, CHR 0x93] @ '':*'' @ [CHR 0x0A]"

definition lbl_seconds :: string where
  "lbl_seconds = '' '' @ [CHR 0xE7, CHR 0xA7, CHR 0x92]"

definition lbl_total :: string where
  "lbl_total =
     [CHR 0xE7, CHR 0xB8, CHR 0xBD, CHR 0xE6, CHR 0xB8, CHR 0xAC, CHR 0xE8, CHR 0xA9, CHR 0xA6,
      CHR 0xE6, CHR 0x95, CHR 0xB8] @ '': ''"

definition lbl_rate :: string where
  "lbl_rate =
     '' | '' @ [CHR 0xE9, CHR 0x80, CHR 0x9A, CHR 0xE9, CHR 0x81, CHR 0x8E, CHR 0xE7, CHR 0x8E, CHR 0x87] @ '': ''"

definition lbl_button :: string where
  "lbl_button =
     [CHR 0xE6, CHR 0x9F, CHR 0xA5, CHR 0xE7, CHR 0x9C, CHR 0x8B, CHR 0xE8, CHR 0xA9, CHR 0xB3,
      CHR 0xE7, CHR 0xB4, CHR 0xB0, CHR 0xE5, CHR 0xA0, CHR 0xB1, CHR 0xE5, CHR 0x91, CHR 0x8A]"

text \<open>
  The run URL, as the source parses: the conditional operator binds weaker than \<open>||\<close>, so
  \<open>options.runUrl || process.env.GITHUB_SERVER_URL\<close> is the condition, and the value is
  the template over the environment, or \<open>null\<close>.
\<close>

definition run_url :: "environment \<Rightarrow> options \<Rightarrow> string option" where
  "run_url env opts =
     (if truthy (js_or (runUrl opts) (GITHUB_SERVER_URL env))
      then Some (interpolate (GITHUB_SERVER_URL env) @ ''/'' @ interpolate (GITHUB_REPOSITORY env)
                 @ ''/actions/runs/'' @ interpolate (GITHUB_RUN_ID env))
      else None)"

text \<open>The expression inside the context line: \<open>total > 0 ? ((passed / total) * 100).toFixed(1) : 0\<close>.\<close>

definition pass_rate :: "int \<Rightarrow> int \<Rightarrow> string" where
  "pass_rate p tot =
     (if 0 < tot
      then toFixed1 (js_times (js_divide (Num (of_int p)) (Num (of_int tot))) (Num 100))
      else showInt 0)"

text \<open>The local constant \<open>status\<close>, which selects the label of the status field.\<close>

definition run_status :: "results \<Rightarrow> string" where
  "run_status res = (if 0 < failed res then ''failure'' else ''success'')"

definition createSlackMessage :: "environment \<Rightarrow> results \<Rightarrow> options \<Rightarrow> slack_message" where
  "createSlackMessage env res opts =
     (let tot = passed res + failed res + skipped res;
          status = run_status res;
          emoji = (if 0 < failed res then '':x:'' else '':white_check_mark:'');
          colour = (if 0 < failed res then ''#dc3545'' else ''#28a745'');
          project = interpolate (js_or (projectName opts) (Some ''API Testing Demo''));
          br = interpolate (js_or (js_or (branch opts) (GITHUB_REF_NAME env)) (Some ''main''));
          run = run_url env opts;
          base =
            [Header (PlainText (emoji @ '' '' @ project @ lbl_header_suffix) True),
             Section
               [Mrkdwn (lbl_status @ (if status = ''success'' then lbl_status_passed else lbl_status_failed)),
                Mrkdwn (lbl_branch @ br @ [CHR 0x60]),
                Mrkdwn (lbl_passed @ showInt (passed res) @ lbl_tests),
                Mrkdwn (lbl_failed @ showInt (failed res) @ lbl_tests),
                Mrkdwn (lbl_skipped @ showInt (skipped res) @ lbl_tests),
                Mrkdwn (lbl_duration @ toFixed1 (Num (duration res)) @ lbl_seconds)],
             Context [Mrkdwn (lbl_total @ showInt tot @ lbl_rate @ pass_rate (passed res) tot @ ''%'')]];
          bs = (case run of
                  None \<Rightarrow> base
                | Some u \<Rightarrow>
                    if u = [] then base
                    else base @ [Actions [\<lparr>btn_text = PlainText lbl_button True,
                                                btn_url = u,
                                                btn_style = ''primary''\<rparr>]])
      in \<lparr>attachments = [\<lparr>color = colour, blocks = bs\<rparr>]\<rparr>)"

text \<open>Readers of the payload, for stating what it holds.\<close>

definition message_color :: "slack_message \<Rightarrow> string list" where
  "message_color m = map color (attachments m)"

definition message_blocks :: "slack_message \<Rightarrow> block list" where
  "message_blocks m = concat (map blocks (attachments m))"

fun text_of :: "text_object \<Rightarrow> string" where
  "text_of (PlainText t e) = t"
| "text_of (Mrkdwn t) = t"

fun header_texts :: "block \<Rightarrow> string list" where
  "header_texts (Header t) = [text_of t]"
| "header_texts b = []"

fun context_texts :: "block \<Rightarrow> string list" where
  "context_texts (Context els) = map text_of els"
| "context_texts b = []"

fun section_fields :: "block \<Rightarrow> string list" where
  "section_fields (Section fs) = map text_of fs"
| "section_fields b = []"

fun button_urls :: "block \<Rightarrow> string list" where
  "button_urls (Actions bs) = map btn_url bs"
| "button_urls b = []"

fun is_actions :: "block \<Rightarrow> bool" where
  "is_actions (Actions bs) = True"
| "is_actions b = False"

section \<open>Reading the result artifact (utils/slack-notify.js, main)\<close>

text \<open>
  The JSON artifact of the test runner: an object whose \<open>stats\<close> member, when present,
  holds counts and a duration in milliseconds, each of them possibly missing. \<open>main\<close>
  builds the summary with \<open>data.stats?.field || 0\<close>; \<open>parseTestResults\<close> returns \<open>null\<close>
  when the file cannot be read or parsed, and then no summary is built.
\<close>

record stats =
  expected :: "int option"
  unexpected :: "int option"
  stats_skipped :: "int option"
  stats_duration :: "rat option"

record report =
  stats :: "stats option"

text \<open>\<open>data.stats?.f\<close>: \<open>undefined\<close> when \<open>stats\<close> is missing.\<close>

definition opt_chain :: "report \<Rightarrow> (stats \<Rightarrow> 'a option) \<Rightarrow> 'a option" where
  "opt_chain data f = (case stats data of None \<Rightarrow> None | Some st \<Rightarrow> f st)"

text \<open>\<open>v || 0\<close> on a number or \<open>undefined\<close>: zero is falsy as well.\<close>

definition or_zero :: "'a::zero option \<Rightarrow> 'a" where
  "or_zero v = (case v of None \<Rightarrow> 0 | Some x \<Rightarrow> if x \<noteq> 0 then x else 0)"

definition results_of_report :: "report \<Rightarrow> results" where
  "results_of_report data =
     \<lparr>passed = or_zero (opt_chain data expected),
      failed = or_zero (opt_chain data unexpected),
      skipped = or_zero (opt_chain data stats_skipped),
      duration = or_zero (opt_chain data stats_duration) / 1000\<rparr>"

definition results_from_file :: "report option \<Rightarrow> results option" where
  "results_from_file parsed = (case parsed of None \<Rightarrow> None | Some data \<Rightarrow> Some (results_of_report data))"

section \<open>Load profile scripts: the setup phase (k6/load-test.js, k6/stress-test.js, k6/spike-test.js)\<close>

text \<open>
  Each script exports a \<open>setup\<close> function that the load runtime calls once before the
  first stage. \<open>http.get\<close> of the runtime is a parameter: it returns the status of the
  response, 0 when the target cannot be reached. \<open>now\<close> is the value of \<open>Date.now()\<close>.
  The result lists the addresses requested, in order, and gives the data handed to the
  run or the error thrown. The \<open>console.log\<close> lines are left out: they neither fail nor
  reach the network.
\<close>

record setup_data =
  startTime :: int

definition BASE_URL :: string where
  "BASE_URL = ''https://jsonplaceholder.typicode.com''"

text \<open>The text of the error: \<open>API\<close> followed by the Chinese for "not available".\<close>

definition msg_unavailable :: string where
  "msg_unavailable = ''API '' @ [CHR 0xE4, CHR 0xB8, CHR 0x8D, CHR 0xE5, CHR 0x8F, CHR 0xAF, CHR 0xE7, CHR 0x94, CHR 0xA8]"

definition load_test_setup :: "(string \<Rightarrow> nat) \<Rightarrow> int \<Rightarrow> string list \<times> (js_error + setup_data)" where
  "load_test_setup http_get now =
     (let url = BASE_URL @ ''/posts'';
          res_status = http_get url
      in if res_status \<noteq> 200
         then ([url], Inl (Error (msg_unavailable @ '': '' @ showNat res_status)))
         else ([url], Inr \<lparr>startTime = now\<rparr>))"

definition stress_test_setup :: "(string \<Rightarrow> nat) \<Rightarrow> int \<Rightarrow> string list \<times> (js_error + setup_data)" where
  "stress_test_setup http_get now = ([], Inr \<lparr>startTime = now\<rparr>)"

definition spike_test_setup :: "(string \<Rightarrow> nat) \<Rightarrow> int \<Rightarrow> string list \<times> (js_error + setup_data)" where
  "spike_test_setup http_get now =
     (let url = BASE_URL @ ''/posts'';
          res_status = http_get url
      in if res_status \<noteq> 200
         then ([url], Inl (Error msg_unavailable))
         else ([url], Inr \<lparr>startTime = now\<rparr>))"

section \<open>Endpoint registry (api/endpoints.js)\<close>

text \<open>
  The path templates that take an identifier. The tests pass integers and strings. The
  template literal prints a string as it is, and an integer of magnitude up to
  \<open>2^53 - 1\<close> (a safe integer, which a double holds exactly) as its decimal digits. How
  the engine prints a larger number, rounded to a double and with an exponent from
  \<open>1e21\<close> on, is the parameter \<open>number_text\<close>. A template uses nothing of its argument
  but the text it prints, so any other value (a fraction, \<open>null\<close>, an object) behaves as
  the string of that text. As in the next section, a string is the list of its UTF-16
  code units, one \<open>char\<close> for each.
\<close>

datatype ident = IdInt int | IdStr string

fun stringify_id :: "(int \<Rightarrow> string) \<Rightarrow> ident \<Rightarrow> string" where
  "stringify_id number_text (IdInt i) =
     (if \<bar>i\<bar> \<le> 9007199254740991 then showInt i else number_text i)"
| "stringify_id number_text (IdStr s) = s"

definition jsonplaceholder_post :: "(int \<Rightarrow> string) \<Rightarrow> ident \<Rightarrow> string" where
  "jsonplaceholder_post number_text idv = ''/posts/'' @ stringify_id number_text idv"

definition jsonplaceholder_user :: "(int \<Rightarrow> string) \<Rightarrow> ident \<Rightarrow> string" where
  "jsonplaceholder_user number_text idv = ''/users/'' @ stringify_id number_text idv"

definition jsonplaceholder_postComments :: "(int \<Rightarrow> string) \<Rightarrow> ident \<Rightarrow> string" where
  "jsonplaceholder_postComments number_text postId =
     ''/posts/'' @ stringify_id number_text postId @ ''/comments''"

definition reqres_user :: "(int \<Rightarrow> string) \<Rightarrow> ident \<Rightarrow> string" where
  "reqres_user number_text idv = ''/users/'' @ stringify_id number_text idv"

definition petstore_petById :: "(int \<Rightarrow> string) \<Rightarrow> ident \<Rightarrow> string" where
  "petstore_petById number_text idv = ''/pet/'' @ stringify_id number_text idv"

definition petstore_orderById :: "(int \<Rightarrow> string) \<Rightarrow> ident \<Rightarrow> string" where
  "petstore_orderById number_text idv = ''/store/order/'' @ stringify_id number_text idv"

definition petstore_userByUsername :: "(int \<Rightarrow> string) \<Rightarrow> ident \<Rightarrow> string" where
  "petstore_userByUsername number_text username = ''/user/'' @ stringify_id number_text username"

text \<open>
  How often a string occurs in a text: the number of positions of the text (its end
  included) at which the string starts.
\<close>

fun occurrences :: "'a list \<Rightarrow> 'a list \<Rightarrow> nat" where
  "occurrences s [] = (if s = [] then 1 else 0)"
| "occurrences s (c # cs) = (if prefix s (c # cs) then 1 else 0) + occurrences s cs"

text \<open>The characters of the literal parts of the seven templates.\<close>

definition template_chars :: "char set" where
  "template_chars = set ''/posts/users/pet/store/order/user/comments''"

section \<open>Schema validation (tests/advanced/schema-validation.spec.js, validateSchema)\<close>

text \<open>
  The values the validator sees: what \<open>JSON.parse\<close> returns, \<open>undefined\<close>, and what a
  property read can yield besides: a function, or a built-in object of the engine that
  is no array (such as \<open>Object.prototype\<close>), told apart by a number. An object is the
  list of its own properties in the order \<open>Object.entries\<close> enumerates them. In this
  section a string is the list of its UTF-16 code units, one \<open>char\<close> for each, so the
  strings of the model are those whose code units are below 256; the field names and
  type names of the schemas are of this kind.
\<close>

datatype jsval =
    JUndefined
  | JNull
  | JBool bool
  | JNum rat
  | JStr string
  | JArr "jsval list"
  | JObj "(string \<times> jsval) list"
  | JFunction
  | JBuiltin nat

text \<open>
  What the engine adds to a value's own data: the members it inherits from its
  prototypes and, for a function or a built-in object, those it owns. Which members
  these are depends on the engine and its version, so they are a parameter of the model:
  \<open>members v key\<close> is the value of the member \<open>key\<close> of \<open>v\<close>, if there is one.
\<close>

type_synonym engine = "jsval \<Rightarrow> string \<Rightarrow> jsval option"

fun typeof :: "jsval \<Rightarrow> string" where
  "typeof JUndefined = ''undefined''"
| "typeof JNull = ''object''"
| "typeof (JBool b) = ''boolean''"
| "typeof (JNum n) = ''number''"
| "typeof (JStr s) = ''string''"
| "typeof (JArr xs) = ''object''"
| "typeof (JObj es) = ''object''"
| "typeof JFunction = ''function''"
| "typeof (JBuiltin n) = ''object''"

fun isArray :: "jsval \<Rightarrow> bool" where
  "isArray (JArr xs) = True"
| "isArray v = False"

fun nullish :: "jsval \<Rightarrow> bool" where
  "nullish JUndefined = True"
| "nullish JNull = True"
| "nullish v = False"

text \<open>The index a property name denotes in an array or string of length \<open>n\<close>, if any.\<close>

definition index_of :: "string \<Rightarrow> nat \<Rightarrow> nat option" where
  "index_of key n = (case filter (\<lambda>i. showNat i = key) [0..<n] of [] \<Rightarrow> None | i # _ \<Rightarrow> Some i)"

text \<open>
  The own properties of a parsed value: the fields of an object, the length and the
  elements of an array, the length and the code units of a string.
\<close>

fun own_property :: "jsval \<Rightarrow> string \<Rightarrow> jsval option" where
  "own_property (JObj es) key = map_of es key"
| "own_property (JArr xs) key =
     (if key = ''length'' then Some (JNum (of_nat (length xs)))
      else case index_of key (length xs) of None \<Rightarrow> None | Some i \<Rightarrow> Some (xs ! i))"
| "own_property (JStr s) key =
     (if key = ''length'' then Some (JNum (of_nat (length s)))
      else case index_of key (length s) of None \<Rightarrow> None | Some i \<Rightarrow> Some (JStr [s ! i]))"
| "own_property v key = None"

text \<open>
  \<open>key in obj\<close>: the property is the value's own or comes from the engine. (The operator
  throws on a primitive; the library applies it to objects only.)
\<close>

definition has_property :: "engine \<Rightarrow> jsval \<Rightarrow> string \<Rightarrow> bool" where
  "has_property members obj key =
     (\<not> nullish obj \<and> (own_property obj key \<noteq> None \<or> members obj key \<noteq> None))"

text \<open>
  \<open>obj[key]\<close> on a value that is neither \<open>null\<close> nor \<open>undefined\<close>: the own property, else
  the member the engine provides, else \<open>undefined\<close>.
\<close>

definition get_value :: "engine \<Rightarrow> jsval \<Rightarrow> string \<Rightarrow> jsval" where
  "get_value members obj key =
     (if nullish obj then JUndefined
      else case own_property obj key of
             Some v \<Rightarrow> v
           | None \<Rightarrow> (case members obj key of Some v \<Rightarrow> v | None \<Rightarrow> JUndefined))"

text \<open>\<open>obj[key]\<close> on any value: reading a property of \<open>null\<close> or \<open>undefined\<close> throws.\<close>

definition get_prop :: "engine \<Rightarrow> jsval \<Rightarrow> string \<Rightarrow> js_error + jsval" where
  "get_prop members obj key =
     (if nullish obj then Inl TypeError else Inr (get_value members obj key))"

text \<open>
  \<open>Object.entries\<close>: the own enumerable properties of an object, the indexed elements of
  an array or a string, nothing for a number, a boolean, a function or a built-in
  object, a TypeError for \<open>null\<close> and \<open>undefined\<close>.
\<close>

fun object_entries :: "jsval \<Rightarrow> js_error + (string \<times> jsval) list" where
  "object_entries (JObj es) = Inr es"
| "object_entries (JArr xs) = Inr (zip (map showNat [0..<length xs]) xs)"
| "object_entries (JStr s) = Inr (zip (map showNat [0..<length s]) (map (\<lambda>c. JStr [c]) s))"
| "object_entries JUndefined = Inl TypeError"
| "object_entries JNull = Inl TypeError"
| "object_entries v = Inr []"

subsection \<open>The matchers of the test runner's \<open>expect\<close>\<close>

text \<open>
  \<open>expect(received).toHaveProperty(keyPath)\<close> reads a string argument as a path: the
  names between dots and brackets, so that \<open>a.b\<close> and \<open>a[0]\<close> address nested members.
  The library splits the path with a regular expression, applied globally: a maximal
  run of characters other than the dot and the two square brackets is a name, and a dot
  followed by a dot or by the end of the string contributes an empty name; a leading
  dot contributes an empty name as well, and
  the empty string is the single empty name.
\<close>

definition name_char :: "char \<Rightarrow> bool" where
  "name_char c = (c \<noteq> CHR ''.'' \<and> c \<noteq> CHR ''['' \<and> c \<noteq> CHR '']'')"

function scan_path :: "string \<Rightarrow> string list" where
  "scan_path [] = []"
| "scan_path (c # cs) =
     (if name_char c then takeWhile name_char (c # cs) # scan_path (dropWhile name_char (c # cs))
      else if c = CHR ''.'' \<and> (cs = [] \<or> hd cs = CHR ''.'') then [] # scan_path cs
      else scan_path cs)"
  by pat_completeness auto
termination
  by (relation "measure length") (auto simp: less_Suc_eq_le length_dropWhile_le)

definition pathAsArray :: "string \<Rightarrow> string list" where
  "pathAsArray propertyPath =
     (if propertyPath = [] then [[]]
      else (if hd propertyPath = CHR ''.'' then [[]] else []) @ scan_path propertyPath)"

text \<open>
  The library's test for a primitive: \<open>null\<close>, or a value that is neither an object nor a
  function.
\<close>

fun isPrimitive :: "jsval \<Rightarrow> bool" where
  "isPrimitive (JArr xs) = False"
| "isPrimitive (JObj es) = False"
| "isPrimitive JFunction = False"
| "isPrimitive (JBuiltin n) = False"
| "isPrimitive v = True"

text \<open>
  \<open>getPath(object, path).hasEndProp\<close>: the walk stops with failure at a member that is
  \<open>null\<close> or \<open>undefined\<close> before the last name; the last name must be a member whose
  value is not \<open>undefined\<close>, or a property the \<open>in\<close> operator finds on an object.
\<close>

fun hasEndProp :: "engine \<Rightarrow> jsval \<Rightarrow> string list \<Rightarrow> bool" where
  "hasEndProp members object [] = False"
| "hasEndProp members object [prop] =
     (get_value members object prop \<noteq> JUndefined
      \<or> (\<not> isPrimitive object \<and> has_property members object prop))"
| "hasEndProp members object (prop # q # ps) =
     (if nullish (get_value members object prop) then False
      else hasEndProp members (get_value members object prop) (q # ps))"

text \<open>
  A matcher returns normally or throws. When the expectation is not met it throws the
  assertion error of the library, \<open>AssertionFailure\<close>. \<open>toHaveProperty\<close> refuses a received
  value that is \<open>null\<close> or \<open>undefined\<close> with a plain error about its use, \<open>MatcherError\<close>.
\<close>

definition toHaveProperty :: "engine \<Rightarrow> jsval \<Rightarrow> string \<Rightarrow> js_error + unit" where
  "toHaveProperty members received keyPath =
     (if nullish received then Inl MatcherError
      else if hasEndProp members received (pathAsArray keyPath) then Inr ()
      else Inl AssertionFailure)"

text \<open>
  \<open>expect(received).toBe(wanted)\<close> compares with \<open>Object.is\<close>. The validator only passes
  a string or a boolean as \<open>received\<close>, for which it is equality of the values.
\<close>

definition toBe :: "jsval \<Rightarrow> jsval \<Rightarrow> js_error + unit" where
  "toBe received wanted = (if received = wanted then Inr () else Inl AssertionFailure)"

subsection \<open>The validator\<close>

text \<open>
  The loop of \<open>validateSchema\<close> over the entries of the schema; the first matcher that
  throws ends it. The recursive call \<open>validateSchema(data[key], expectedType)\<close> is made
  when \<open>expectedType\<close> has type \<open>object\<close> and is no array: then it is an object, whose
  entries the inner loop walks, or a built-in object, which has no entries, or it is
  \<open>null\<close>, on which \<open>Object.entries\<close> throws.
\<close>

fun validateEntries :: "engine \<Rightarrow> jsval \<Rightarrow> (string \<times> jsval) list \<Rightarrow> js_error + unit" where
  "validateEntries members data [] = Inr ()"
| "validateEntries members data ((key, expectedType) # rest) =
     (case
        (if typeof expectedType = ''object'' \<and> \<not> isArray expectedType then
           (case toHaveProperty members data key of
              Inl e \<Rightarrow> Inl e
            | Inr u \<Rightarrow>
                (case toBe (JStr (typeof (get_value members data key))) (JStr ''object'') of
                   Inl e \<Rightarrow> Inl e
                 | Inr u \<Rightarrow>
                     (case expectedType of
                        JObj nested \<Rightarrow> validateEntries members (get_value members data key) nested
                      | JBuiltin n \<Rightarrow> Inr ()
                      | other \<Rightarrow> Inl TypeError)))
         else if expectedType = JStr ''array'' then
           (case get_prop members data key of
              Inl e \<Rightarrow> Inl e
            | Inr v \<Rightarrow> toBe (JBool (isArray v)) (JBool True))
         else
           (case toHaveProperty members data key of
              Inl e \<Rightarrow> Inl e
            | Inr u \<Rightarrow> toBe (JStr (typeof (get_value members data key))) expectedType))
      of
        Inl e \<Rightarrow> Inl e
      | Inr u \<Rightarrow> validateEntries members data rest)"

definition validateSchema :: "engine \<Rightarrow> jsval \<Rightarrow> jsval \<Rightarrow> js_error + unit" where
  "validateSchema members data schema =
     (case object_entries schema of
        Inl e \<Rightarrow> Inl e
      | Inr entries \<Rightarrow> validateEntries members data entries)"

subsection \<open>What the specification asks of the validator\<close>

text \<open>
  A schema as the specification describes it: every field is declared with a type name
  (a string, \<open>array\<close> among them) or with a nested schema object.
\<close>

fun schema_shape :: "(string \<times> jsval) list \<Rightarrow> bool" where
  "schema_shape [] = True"
| "schema_shape ((key, expectedType) # rest) =
     ((case expectedType of
         JStr s \<Rightarrow> True
       | JObj nested \<Rightarrow> schema_shape nested
       | other \<Rightarrow> False)
      \<and> schema_shape rest)"

text \<open>The field names of a schema, at every level, are free of path syntax.\<close>

fun plain_keys :: "(string \<times> jsval) list \<Rightarrow> bool" where
  "plain_keys [] = True"
| "plain_keys ((key, expectedType) # rest) =
     (list_all name_char key
      \<and> (case expectedType of JObj nested \<Rightarrow> plain_keys nested | other \<Rightarrow> True)
      \<and> plain_keys rest)"

text \<open>
  The specification's condition, in its words: a field declared with a type name is
  present on the data and its value has that \<open>typeof\<close>; a field declared \<open>array\<close> holds an
  array; a field declared with a nested schema holds a value of type \<open>object\<close> that
  satisfies the nested schema. The value of a field that is not there is \<open>undefined\<close>.
\<close>

fun conforms :: "engine \<Rightarrow> jsval \<Rightarrow> (string \<times> jsval) list \<Rightarrow> bool" where
  "conforms members data [] = True"
| "conforms members data ((key, expectedType) # rest) =
     ((case expectedType of
         JStr s \<Rightarrow>
           if s = ''array'' then isArray (get_value members data key)
           else has_property members data key \<and> typeof (get_value members data key) = s
       | JObj nested \<Rightarrow>
           typeof (get_value members data key) = ''object''
           \<and> conforms members (get_value members data key) nested
       | other \<Rightarrow> False)
      \<and> conforms members data rest)"

text \<open>No field that the schema declares with a nested schema holds \<open>null\<close>, at any level.\<close>

fun nested_not_null :: "engine \<Rightarrow> jsval \<Rightarrow> (string \<times> jsval) list \<Rightarrow> bool" where
  "nested_not_null members data [] = True"
| "nested_not_null members data ((key, expectedType) # rest) =
     ((case expectedType of
         JObj nested \<Rightarrow>
           get_value members data key \<noteq> JNull
           \<and> nested_not_null members (get_value members data key) nested
       | other \<Rightarrow> True)
      \<and> nested_not_null members data rest)"

text \<open>
  The members of a plain object in Node.js, all inherited from \<open>Object.prototype\<close>:
  eleven functions and the accessor \<open>__proto__\<close>, which yields the prototype. The
  prototype is the built-in object 0; its own \<open>__proto__\<close> yields \<open>null\<close>. The examples
  below read members of plain objects only; what arrays, strings, numbers, booleans and
  functions inherit is not listed here.
\<close>

definition object_prototype_functions :: "string list" where
  "object_prototype_functions =
     [''constructor'', ''__defineGetter__'', ''__defineSetter__'', ''hasOwnProperty'',
      ''__lookupGetter__'', ''__lookupSetter__'', ''isPrototypeOf'', ''propertyIsEnumerable'',
      ''toString'', ''valueOf'', ''toLocaleString'']"

definition plain_object_members :: engine where
  "plain_object_members v key =
     (case v of
        JObj es \<Rightarrow>
          if key = ''__proto__'' then Some (JBuiltin 0)
          else if key \<in> set object_prototype_functions then Some JFunction
          else None
      | JBuiltin n \<Rightarrow>
          if n \<noteq> 0 then None
          else if key = ''__proto__'' then Some JNull
          else if key \<in> set object_prototype_functions then Some JFunction
          else None
      | other \<Rightarrow> None)"

section \<open>Properties\<close>

subsection \<open>The sender\<close>

text \<open>
  C4. With no webhook address configured (\<open>SLACK_WEBHOOK_URL\<close> unset, or set to the empty
  string, which JavaScript also treats as false), \<open>sendSlackNotification\<close> returns
  \<open>false\<close> for every message, serialiser and network, and performs no network call: it
  only writes the two console lines.
\<close>

theorem sendSlackNotification_unconfigured:
  "sendSlackNotification None stringify fetch message =
     ([ConsoleError WebhookUrlNotSet, ConsoleLog ExportHint], Inr False)
   \<and> sendSlackNotification (Some []) stringify fetch message =
     ([ConsoleError WebhookUrlNotSet, ConsoleLog ExportHint], Inr False)
   \<and> filter is_fetch (fst (sendSlackNotification None stringify fetch message)) = []
   \<and> filter is_fetch (fst (sendSlackNotification (Some []) stringify fetch message)) = []"
  by (simp add: sendSlackNotification_def not_configured_def)

text \<open>
  C5. \<open>sendSlackNotification\<close> never throws: every path returns a boolean. It returns
  \<open>true\<close> exactly when the address is configured, the message was serialised and the
  response of the POST is successful. Every other outcome writes to the error console
  and gives \<open>false\<close>: so do a transport error and a non-success status, each after the
  one request. At most one request is made, and exactly one once the message has been
  serialised: nothing is retried.
\<close>

theorem sendSlackNotification_never_throws:
  fixes stringify :: "'m \<Rightarrow> string + string"
  shows
  "(\<exists>b. snd (sendSlackNotification w stringify fetch message) = Inr b)
   \<and> (snd (sendSlackNotification w stringify fetch message) = Inr True) =
       (\<exists>url b r. w = Some url \<and> url \<noteq> [] \<and> stringify message = Inr b
          \<and> fetch url (post_request b) = Fulfilled r \<and> ok r)
   \<and> length (filter is_fetch (fst (sendSlackNotification w stringify fetch message))) \<le> 1
   \<and> (snd (sendSlackNotification w stringify fetch message) = Inr True
        \<or> (\<exists>m. ConsoleError m \<in> set (fst (sendSlackNotification w stringify fetch message))))
   \<and> (\<forall>url b. w = Some url \<and> url \<noteq> [] \<and> stringify message = Inr b \<longrightarrow>
         filter is_fetch (fst (sendSlackNotification w stringify fetch message))
           = [Fetch url (post_request b)]
         \<and> (\<forall>msg. fetch url (post_request b) = Rejected msg \<longrightarrow>
               sendSlackNotification w stringify fetch message
                 = ([Fetch url (post_request b), ConsoleError (SendError msg)], Inr False))
         \<and> (\<forall>r. fetch url (post_request b) = Fulfilled r \<and> \<not> ok r \<longrightarrow>
               sendSlackNotification w stringify fetch message
                 = ([Fetch url (post_request b),
                     ConsoleError (SendFailed (status r) (statusText r))], Inr False)))"
  by (auto simp: sendSlackNotification_def not_configured_def
           split: option.splits sum.splits fetch_outcome.splits)

theorem sendSlackNotification_never_throws_witness:
  "sendSlackNotification (Some ''https://hooks.example/T'') Inr
       (\<lambda>u q. Fulfilled \<lparr>status = 500, statusText = ''Internal Server Error''\<rparr>) ''{}''
     = ([Fetch ''https://hooks.example/T'' (post_request ''{}''),
         ConsoleError (SendFailed 500 ''Internal Server Error'')], Inr False)
   \<and> sendSlackNotification (Some ''https://hooks.example/T'') Inr
       (\<lambda>u q. Rejected ''fetch failed'') ''{}''
     = ([Fetch ''https://hooks.example/T'' (post_request ''{}''),
         ConsoleError (SendError ''fetch failed'')], Inr False)"
  using sendSlackNotification_never_throws
          [of "Some ''https://hooks.example/T''" Inr
              "\<lambda>u q. Fulfilled \<lparr>status = 500, statusText = ''Internal Server Error''\<rparr>" "''{}''"]
        sendSlackNotification_never_throws
          [of "Some ''https://hooks.example/T''" Inr "\<lambda>u q. Rejected ''fetch failed''" "''{}''"]
  by (simp add: ok_def)

subsection \<open>The formatter on concrete summaries\<close>

lemma showInt_0: "showInt 0 = ''0''"
  by (simp add: showInt_def showNat.simps)

lemma showInt_small: "showInt 1 = ''1''" "showInt 5 = ''5''" "showInt 6 = ''6''"
  by (simp_all add: showInt_def showNat.simps)

lemma pass_rate_5_of_6: "pass_rate 5 6 = ''83.3''"
  by code_simp

lemma toFixed1_12_3: "toFixed1 (Num (123 / 10)) = ''12.3''"
  by code_simp

lemma pass_rate_no_tests: "pass_rate 0 0 = ''0''"
  by (simp add: pass_rate_def showInt_0)

text \<open>
  C2. For the summary \<open>{passed: 5, failed: 1, skipped: 0, duration: 12.3}\<close>, whatever the
  options and the environment: the status is \<open>failure\<close>, the attachment's colour is the
  red \<open>#dc3545\<close>, the header starts with \<open>:x:\<close>, the status field holds the failure
  label (the source's label is the Chinese word for "failed" followed by \<open>:warning:\<close>),
  the other fields show 5, 1, 0 and 12.3, and the context line reads total 6, pass rate
  83.3%.
\<close>

theorem createSlackMessage_one_failure:
  "run_status \<lparr>passed = 5, failed = 1, skipped = 0, duration = 123 / 10\<rparr> = ''failure''
   \<and> message_color (createSlackMessage env \<lparr>passed = 5, failed = 1, skipped = 0, duration = 123 / 10\<rparr> opts)
     = [''#dc3545'']
   \<and> concat (map header_texts (message_blocks
        (createSlackMessage env \<lparr>passed = 5, failed = 1, skipped = 0, duration = 123 / 10\<rparr> opts)))
     = ['':x: '' @ interpolate (js_or (projectName opts) (Some ''API Testing Demo'')) @ lbl_header_suffix]
   \<and> concat (map section_fields (message_blocks
        (createSlackMessage env \<lparr>passed = 5, failed = 1, skipped = 0, duration = 123 / 10\<rparr> opts)))
     = [lbl_status @ lbl_status_failed,
        lbl_branch @ interpolate (js_or (js_or (branch opts) (GITHUB_REF_NAME env)) (Some ''main'')) @ [CHR 0x60],
        lbl_passed @ ''5'' @ lbl_tests,
        lbl_failed @ ''1'' @ lbl_tests,
        lbl_skipped @ ''0'' @ lbl_tests,
        lbl_duration @ ''12.3'' @ lbl_seconds]
   \<and> concat (map context_texts (message_blocks
        (createSlackMessage env \<lparr>passed = 5, failed = 1, skipped = 0, duration = 123 / 10\<rparr> opts)))
     = [lbl_total @ ''6'' @ lbl_rate @ ''83.3%'']"
  by (simp add: createSlackMessage_def run_status_def message_blocks_def message_color_def Let_def
        pass_rate_5_of_6 toFixed1_12_3 showInt_0 showInt_small del: toFixed1.simps
        split: option.split)

text \<open>
  C3. With no tests at all (\<open>passed\<close>, \<open>failed\<close> and \<open>skipped\<close> all 0), whatever the
  duration, the options and the environment, the context line reads total 0, pass rate
  0%. The guard \<open>total > 0\<close> keeps the division from running: the rate is the number 0
  printed, not the \<open>NaN\<close> that dividing 0 by 0 would print.
\<close>

theorem createSlackMessage_no_tests:
  "concat (map context_texts (message_blocks
      (createSlackMessage env \<lparr>passed = 0, failed = 0, skipped = 0, duration = d\<rparr> opts)))
     = [lbl_total @ ''0'' @ lbl_rate @ ''0%'']
   \<and> pass_rate 0 0 = ''0''
   \<and> pass_rate 0 0 \<noteq> toFixed1 (js_times (js_divide (Num 0) (Num 0)) (Num 100))"
  by (simp add: createSlackMessage_def run_status_def message_blocks_def Let_def
        pass_rate_no_tests showInt_0 split: option.split)

subsection \<open>Status, colour and emoji\<close>

text \<open>
  C10. The colour, the emoji of the header and the label of the status field follow the
  test \<open>failed > 0\<close> alone. With \<open>failed = 0\<close> the payload reads success (green
  \<open>#28a745\<close>, \<open>:white_check_mark:\<close>, the "passed" label), whatever \<open>passed\<close> and
  \<open>skipped\<close> are, also when every test was skipped; with \<open>failed > 0\<close> it reads failure
  (red \<open>#dc3545\<close>, \<open>:x:\<close>, the "failed" label).
\<close>

theorem createSlackMessage_status_by_failed:
  "(failed res = 0 \<longrightarrow>
      run_status res = ''success''
      \<and> message_color (createSlackMessage env res opts) = [''#28a745'']
      \<and> concat (map header_texts (message_blocks (createSlackMessage env res opts)))
          = ['':white_check_mark: '' @ interpolate (js_or (projectName opts) (Some ''API Testing Demo''))
               @ lbl_header_suffix]
      \<and> hd (concat (map section_fields (message_blocks (createSlackMessage env res opts))))
          = lbl_status @ lbl_status_passed)
   \<and> (0 < failed res \<longrightarrow>
      run_status res = ''failure''
      \<and> message_color (createSlackMessage env res opts) = [''#dc3545'']
      \<and> concat (map header_texts (message_blocks (createSlackMessage env res opts)))
          = ['':x: '' @ interpolate (js_or (projectName opts) (Some ''API Testing Demo''))
               @ lbl_header_suffix]
      \<and> hd (concat (map section_fields (message_blocks (createSlackMessage env res opts))))
          = lbl_status @ lbl_status_failed)"
  by (simp add: createSlackMessage_def run_status_def message_blocks_def message_color_def Let_def
        split: option.split)

theorem createSlackMessage_status_by_failed_witness:
  "message_color
      (createSlackMessage
         \<lparr>GITHUB_REF_NAME = None, GITHUB_SERVER_URL = None, GITHUB_REPOSITORY = None, GITHUB_RUN_ID = None\<rparr>
         \<lparr>passed = 0, failed = 0, skipped = 3, duration = 1\<rparr> no_options)
      = [''#28a745'']
   \<and> hd (concat (map section_fields (message_blocks
        (createSlackMessage
           \<lparr>GITHUB_REF_NAME = None, GITHUB_SERVER_URL = None, GITHUB_REPOSITORY = None, GITHUB_RUN_ID = None\<rparr>
           \<lparr>passed = 0, failed = 0, skipped = 3, duration = 1\<rparr> no_options))))
      = lbl_status @ lbl_status_passed
   \<and> message_color
      (createSlackMessage
         \<lparr>GITHUB_REF_NAME = None, GITHUB_SERVER_URL = None, GITHUB_REPOSITORY = None, GITHUB_RUN_ID = None\<rparr>
         \<lparr>passed = 0, failed = 2, skipped = 0, duration = 1\<rparr> no_options)
      = [''#dc3545'']"
  using createSlackMessage_status_by_failed
          [of "\<lparr>passed = 0, failed = 0, skipped = 3, duration = 1\<rparr>"
              "\<lparr>GITHUB_REF_NAME = None, GITHUB_SERVER_URL = None, GITHUB_REPOSITORY = None, GITHUB_RUN_ID = None\<rparr>"
              no_options]
        createSlackMessage_status_by_failed
          [of "\<lparr>passed = 0, failed = 2, skipped = 0, duration = 1\<rparr>"
              "\<lparr>GITHUB_REF_NAME = None, GITHUB_SERVER_URL = None, GITHUB_REPOSITORY = None, GITHUB_RUN_ID = None\<rparr>"
              no_options]
  by simp

subsection \<open>The action button\<close>

text \<open>
  C9. The payload has an actions block, with one button, exactly when \<open>options.runUrl\<close> or
  \<open>GITHUB_SERVER_URL\<close> is a non-empty string. The button's address is always the template
  over the environment variables: a supplied \<open>options.runUrl\<close> only switches the button on
  and is never its address. With \<open>options.runUrl\<close> supplied and none of the variables
  set, the address is \<open>undefined/undefined/actions/runs/undefined\<close>.
\<close>

theorem createSlackMessage_runUrl_ignored:
  "concat (map button_urls (message_blocks (createSlackMessage env res opts)))
     = (if truthy (runUrl opts) \<or> truthy (GITHUB_SERVER_URL env)
        then [interpolate (GITHUB_SERVER_URL env) @ ''/'' @ interpolate (GITHUB_REPOSITORY env)
                @ ''/actions/runs/'' @ interpolate (GITHUB_RUN_ID env)]
        else [])
   \<and> concat (map button_urls (message_blocks
        (createSlackMessage
           \<lparr>GITHUB_REF_NAME = None, GITHUB_SERVER_URL = None,
            GITHUB_REPOSITORY = None, GITHUB_RUN_ID = None\<rparr>
           res
           \<lparr>projectName = None, branch = None, runUrl = Some ''https://ci.example.com/runs/42''\<rparr>)))
     = [''undefined/undefined/actions/runs/undefined'']"
  by (simp add: createSlackMessage_def run_status_def message_blocks_def Let_def run_url_def
        js_or_def split: option.split)

subsection \<open>The summary built from the artifact\<close>

text \<open>
  C8. From an artifact \<open>{stats: {expected, unexpected, skipped, duration}}\<close> the summary
  is \<open>passed = expected\<close>, \<open>failed = unexpected\<close>, \<open>skipped = skipped\<close> and
  \<open>duration = duration / 1000\<close>; a missing field counts as 0, and so does every field
  when \<open>stats\<close> itself is missing. A file that was read and parsed always gives a summary.
\<close>

theorem results_of_report_fields:
  "results_of_report
      \<lparr>stats = Some \<lparr>expected = Some e, unexpected = Some u, stats_skipped = Some s,
                     stats_duration = Some d\<rparr>\<rparr>
     = \<lparr>passed = e, failed = u, skipped = s, duration = d / 1000\<rparr>
   \<and> results_of_report \<lparr>stats = None\<rparr> = \<lparr>passed = 0, failed = 0, skipped = 0, duration = 0\<rparr>
   \<and> results_of_report \<lparr>stats = Some st\<rparr>
     = \<lparr>passed = (case expected st of None \<Rightarrow> 0 | Some x \<Rightarrow> x),
        failed = (case unexpected st of None \<Rightarrow> 0 | Some x \<Rightarrow> x),
        skipped = (case stats_skipped st of None \<Rightarrow> 0 | Some x \<Rightarrow> x),
        duration = (case stats_duration st of None \<Rightarrow> 0 | Some x \<Rightarrow> x) / 1000\<rparr>
   \<and> results_from_file (Some data) = Some (results_of_report data)"
  by (simp add: results_of_report_def results_from_file_def opt_chain_def or_zero_def
           split: option.splits)

subsection \<open>The setup phase of the load scripts\<close>

text \<open>
  C6. Two of the three load scripts check the target in \<open>setup\<close>: \<open>load-test.js\<close> and
  \<open>spike-test.js\<close> request \<open>/posts\<close> once and throw when the status is not 200, so that
  no stage runs. \<open>stress-test.js\<close> does not: its \<open>setup\<close> makes no request and returns
  the start time whatever the state of the target. Shown for a target that answers 503.
\<close>

theorem stress_test_setup_no_liveness_check:
  "stress_test_setup http_get now = ([], Inr \<lparr>startTime = now\<rparr>)
   \<and> load_test_setup (\<lambda>u. 503) now
       = ([''https://jsonplaceholder.typicode.com/posts''], Inl (Error (msg_unavailable @ '': 503'')))
   \<and> spike_test_setup (\<lambda>u. 503) now
       = ([''https://jsonplaceholder.typicode.com/posts''], Inl (Error msg_unavailable))
   \<and> load_test_setup (\<lambda>u. 200) now
       = ([''https://jsonplaceholder.typicode.com/posts''], Inr \<lparr>startTime = now\<rparr>)
   \<and> spike_test_setup (\<lambda>u. 200) now
       = ([''https://jsonplaceholder.typicode.com/posts''], Inr \<lparr>startTime = now\<rparr>)"
  by (simp add: stress_test_setup_def load_test_setup_def spike_test_setup_def BASE_URL_def
        showNat.simps)

subsection \<open>The path templates\<close>

lemma occurrences_zero_iff: "(occurrences s t = 0) = (\<not> sublist s t)"
  by (induction t) (auto simp: sublist_Cons_right)

lemma occurrences_append_ge: "occurrences s t \<le> occurrences s (pre @ t)"
  by (induction pre) auto

lemma prefix_within:
  assumes "length s \<le> length a"
  shows "prefix s (a @ b) = prefix s a"
proof
  assume "prefix s (a @ b)"
  then consider "prefix s a" | us where "s = a @ us" "prefix us b"
    unfolding prefix_append by blast
  then show "prefix s a"
  proof cases
    case 2
    with assms have "us = []" by simp
    with 2 show ?thesis by simp
  qed
next
  assume "prefix s a"
  then show "prefix s (a @ b)" by (rule prefix_prefix)
qed

lemma not_sublist_shorter: "length t < length s \<Longrightarrow> \<not> sublist s t"
  using sublist_length_le[of s t] by auto

lemma not_sublist_butlast: "s \<noteq> [] \<Longrightarrow> \<not> sublist s (butlast s)"
  by (rule not_sublist_shorter) (cases s, auto)

lemma not_sublist_tl: "s \<noteq> [] \<Longrightarrow> \<not> sublist s (tl s)"
  by (rule not_sublist_shorter) (cases s, auto)

lemma occurrences_before:
  assumes "s \<noteq> []"
  shows "(occurrences s (pre @ s @ suf) = occurrences s (s @ suf)) = (\<not> sublist s (pre @ butlast s))"
proof (induction pre)
  case Nil
  have "\<not> sublist s (butlast s)"
    using assms by (rule not_sublist_butlast)
  then show ?case by simp
next
  case (Cons c p)
  have split: "c # p @ s @ suf = (c # p @ butlast s) @ (last s # suf)"
    using assms by simp
  have "prefix s (c # p @ s @ suf) = prefix s (c # p @ butlast s)"
    unfolding split by (rule prefix_within) simp
  moreover have "occurrences s (s @ suf) \<le> occurrences s (p @ s @ suf)"
    by (rule occurrences_append_ge)
  ultimately show ?case
    using Cons by (auto simp: sublist_Cons_right)
qed

lemma occurrences_after:
  assumes "s \<noteq> []"
  shows "occurrences s (s @ suf) = 1 + occurrences s (tl s @ suf)"
  using assms by (cases s) auto

lemma occurrences_once_iff:
  assumes "pre \<noteq> []"
  shows "(occurrences s (pre @ s @ suf) = 1)
           = (s \<noteq> [] \<and> \<not> sublist s (pre @ butlast s) \<and> \<not> sublist s (tl s @ suf))"
proof (cases "s = []")
  case True
  have "occurrences ([] :: 'a list) t = Suc (length t)" for t :: "'a list"
    by (induction t) auto
  with True assms show ?thesis by (cases pre) auto
next
  case False
  have ge: "occurrences s (s @ suf) \<le> occurrences s (pre @ s @ suf)"
    by (rule occurrences_append_ge)
  have after: "occurrences s (s @ suf) = 1 + occurrences s (tl s @ suf)"
    using False by (rule occurrences_after)
  have "(occurrences s (pre @ s @ suf) = 1)
          = (occurrences s (pre @ s @ suf) = occurrences s (s @ suf) \<and> occurrences s (tl s @ suf) = 0)"
    using ge after by auto
  then show ?thesis
    using False by (simp add: occurrences_before occurrences_zero_iff)
qed

lemma occurrences_once_prefix_iff:
  assumes "pre \<noteq> []"
  shows "(occurrences s (pre @ s) = 1) = (s \<noteq> [] \<and> \<not> sublist s (pre @ butlast s))"
proof -
  have "\<not> sublist s (tl s)" if "s \<noteq> []"
    using that by (rule not_sublist_tl)
  then show ?thesis
    using occurrences_once_iff[OF assms, of s "[]"] by auto
qed

lemma sublist_before_slash:
  assumes "s \<noteq> []" "c \<notin> set s" "pre \<noteq> []" "last pre = c"
  shows "sublist s (pre @ butlast s) = sublist s pre"
proof -
  have "\<not> sublist s (butlast s)"
    using assms(1) by (rule not_sublist_butlast)
  moreover have False if "s = xs1 @ xs2" "suffix xs1 pre" "prefix xs2 (butlast s)" for xs1 xs2
  proof (cases "xs1 = []")
    case True
    with that have "prefix s (butlast s)" by simp
    then have "sublist s (butlast s)" by (rule prefix_imp_sublist)
    with assms(1) show False by (simp add: not_sublist_butlast)
  next
    case False
    from that(2) obtain zs where "pre = zs @ xs1" by (auto simp: suffix_def)
    with False assms(4) have "last xs1 = c" by simp
    with False have "c \<in> set xs1" using last_in_set by blast
    with that(1) assms(2) show False by simp
  qed
  ultimately show ?thesis
    unfolding sublist_append by blast
qed

lemma sublist_after_slash:
  assumes "s \<noteq> []" "c \<notin> set s" "suf = [] \<or> hd suf = c"
  shows "sublist s (tl s @ suf) = sublist s suf"
proof -
  have "\<not> sublist s (tl s)"
    using assms(1) by (rule not_sublist_tl)
  moreover have False if "s = xs1 @ xs2" "suffix xs1 (tl s)" "prefix xs2 suf" for xs1 xs2
  proof (cases "xs2 = []")
    case True
    with that have "suffix s (tl s)" by simp
    then have "sublist s (tl s)" by (rule suffix_imp_sublist)
    with assms(1) show False by (simp add: not_sublist_tl)
  next
    case False
    with that(3) have "suf \<noteq> []" by auto
    with assms(3) have "hd suf = c" by simp
    moreover from that(3) False have "hd xs2 = hd suf" by (auto simp: prefix_def)
    ultimately have "c \<in> set xs2" using False hd_in_set by metis
    with that(1) assms(2) show False by simp
  qed
  ultimately show ?thesis
    unfolding sublist_append by blast
qed

lemma showNat_nonempty: "showNat n \<noteq> []"
  by (subst showNat.simps) simp


lemma showNat_digits: "set (showNat n) \<subseteq> set ''0123456789''"
proof (induction n rule: showNat.induct)
  case (1 n)
  have d: "''0123456789'' ! k \<in> set ''0123456789''" if "k < 10" for k
    using that by (intro nth_mem) simp
  show ?case
  proof (cases "n < 10")
    case True
    then show ?thesis using d[of n] by (subst showNat.simps) simp
  next
    case False
    have "n mod 10 < 10" by simp
    with False 1 d[of "n mod 10"] show ?thesis
      by (subst showNat.simps) simp
  qed
qed

lemma showInt_nonempty: "showInt i \<noteq> []"
  by (simp add: showInt_def showNat_nonempty)

lemma showInt_chars: "set (showInt i) \<subseteq> set ''-0123456789''"
proof (cases "i < 0")
  case True
  have "set (showNat (nat (- i))) \<subseteq> set ''-0123456789''"
    using showNat_digits set_subset_Cons by (rule subset_trans)
  with True show ?thesis
    unfolding showInt_def by (simp only: if_True set_simps insert_subset) simp
next
  case False
  have "set (showNat (nat i)) \<subseteq> set ''-0123456789''"
    using showNat_digits set_subset_Cons by (rule subset_trans)
  with False show ?thesis
    unfolding showInt_def by (simp only: if_False)
qed

lemma digits_not_template: "set ''-0123456789'' \<inter> template_chars = {}"
  by code_simp

lemma showInt_not_template: "set (showInt i) \<inter> template_chars = {}"
  using showInt_chars[of i] digits_not_template by (meson disjoint_iff subsetD)

lemma occurrences_last_absent:
  "s \<noteq> [] \<Longrightarrow> last s \<notin> set t \<Longrightarrow> occurrences s t = 0"
proof (induction t)
  case Nil
  then show ?case by simp
next
  case (Cons c t)
  have "\<not> prefix s (c # t)"
  proof
    assume "prefix s (c # t)"
    then have "set s \<subseteq> set (c # t)" by (rule set_mono_prefix)
    with Cons.prems show False using last_in_set[of s] by blast
  qed
  with Cons show ?case by simp
qed

lemma occurrences_overlap:
  "s \<noteq> [] \<Longrightarrow> last s \<notin> set suf \<Longrightarrow> length cs < length s \<Longrightarrow> occurrences s (cs @ suf) = 0"
proof (induction cs)
  case Nil
  then show ?case by (simp add: occurrences_last_absent)
next
  case (Cons c cs)
  have "\<not> prefix s ((c # cs) @ suf)"
  proof
    assume "prefix s ((c # cs) @ suf)"
    then consider "prefix s (c # cs)" | us where "s = (c # cs) @ us" "prefix us suf"
      unfolding prefix_append by blast
    then show False
    proof cases
      case 1
      then have "length s \<le> length (c # cs)" by (rule prefix_length_le)
      with Cons.prems show False by simp
    next
      case 2
      with Cons.prems have "us \<noteq> []" by auto
      with 2 have "last s = last us" by simp
      moreover have "last us \<in> set suf"
        using \<open>us \<noteq> []\<close> 2(2) set_mono_prefix[of us suf] last_in_set[of us] by blast
      ultimately show False using Cons.prems by simp
    qed
  qed
  moreover from Cons have "occurrences s (cs @ suf) = 0" by simp
  ultimately show ?case by simp
qed

lemma occurrences_skip_prefix:
  "s \<noteq> [] \<Longrightarrow> hd s \<notin> set pre \<Longrightarrow> occurrences s (pre @ t) = occurrences s t"
proof (induction pre)
  case Nil
  then show ?case by simp
next
  case (Cons c pre)
  have "\<not> prefix s (c # pre @ t)"
  proof
    assume "prefix s (c # pre @ t)"
    with Cons.prems(1) have "hd s = c" by (cases s) auto
    with Cons.prems show False by simp
  qed
  with Cons show ?case by simp
qed

lemma occurrences_template:
  assumes "s \<noteq> []" "hd s \<notin> set pre" "last s \<notin> set suf"
  shows "occurrences s (pre @ s @ suf) = 1"
proof -
  obtain c cs where s: "s = c # cs" using assms(1) by (cases s) auto
  have "occurrences s (pre @ s @ suf) = occurrences s (s @ suf)"
    using assms by (simp add: occurrences_skip_prefix)
  also have "\<dots> = 1 + occurrences s (cs @ suf)"
    by (simp add: s)
  also have "occurrences s (cs @ suf) = 0"
    using assms by (intro occurrences_overlap) (simp_all add: s)
  finally show ?thesis by simp
qed

lemma occurrences_disjoint:
  assumes "s \<noteq> []" "set s \<inter> template_chars = {}" "set pre \<subseteq> template_chars" "set suf \<subseteq> template_chars"
  shows "occurrences s (pre @ s @ suf) = 1"
proof -
  have "hd s \<in> set s" "last s \<in> set s" using assms(1) by simp_all
  with assms(2) have "hd s \<notin> template_chars" "last s \<notin> template_chars"
    by (meson disjoint_iff)+
  with assms(3,4) have "hd s \<notin> set pre" "last s \<notin> set suf"
    by (meson subsetD)+
  with assms(1) show ?thesis by (rule occurrences_template)
qed


lemma template_literals:
  "set ''/posts/'' \<subseteq> template_chars" "set ''/users/'' \<subseteq> template_chars"
  "set ''/pet/'' \<subseteq> template_chars" "set ''/store/order/'' \<subseteq> template_chars"
  "set ''/user/'' \<subseteq> template_chars" "set ''/comments'' \<subseteq> template_chars"
  by code_simp+


lemma template_prefix_facts:
  assumes "pre \<noteq> []" "last pre = CHR ''/''" "set pre \<subseteq> template_chars"
  shows "prefix s (drop (length pre) (pre @ s))"
    and "(occurrences s (pre @ s) = 1) = (s \<noteq> [] \<and> \<not> sublist s (pre @ butlast s))"
    and "CHR ''/'' \<notin> set s \<longrightarrow> (occurrences s (pre @ s) = 1) = (s \<noteq> [] \<and> \<not> sublist s pre)"
    and "occurrences (showInt n) (pre @ showInt n) = 1"
proof -
  show "prefix s (drop (length pre) (pre @ s))" by simp
  show iff: "(occurrences s (pre @ s) = 1) = (s \<noteq> [] \<and> \<not> sublist s (pre @ butlast s))"
    using assms(1) by (rule occurrences_once_prefix_iff)
  show "CHR ''/'' \<notin> set s \<longrightarrow> (occurrences s (pre @ s) = 1) = (s \<noteq> [] \<and> \<not> sublist s pre)"
    using iff sublist_before_slash[of s "CHR ''/''" pre] assms(1,2) by auto
  show "occurrences (showInt n) (pre @ showInt n) = 1"
    using occurrences_disjoint[of "showInt n" pre "[]"] showInt_nonempty showInt_not_template assms(3)
    by simp
qed

lemma template_facts:
  assumes "pre \<noteq> []" "last pre = CHR ''/''" "set pre \<subseteq> template_chars"
    and "suf \<noteq> []" "hd suf = CHR ''/''" "set suf \<subseteq> template_chars"
  shows "prefix s (drop (length pre) (pre @ s @ suf))"
    and "(occurrences s (pre @ s @ suf) = 1)
           = (s \<noteq> [] \<and> \<not> sublist s (pre @ butlast s) \<and> \<not> sublist s (tl s @ suf))"
    and "CHR ''/'' \<notin> set s \<longrightarrow>
           (occurrences s (pre @ s @ suf) = 1) = (s \<noteq> [] \<and> \<not> sublist s pre \<and> \<not> sublist s suf)"
    and "occurrences (showInt n) (pre @ showInt n @ suf) = 1"
proof -
  show "prefix s (drop (length pre) (pre @ s @ suf))" by simp
  show iff: "(occurrences s (pre @ s @ suf) = 1)
           = (s \<noteq> [] \<and> \<not> sublist s (pre @ butlast s) \<and> \<not> sublist s (tl s @ suf))"
    using assms(1) by (rule occurrences_once_iff)
  show "CHR ''/'' \<notin> set s \<longrightarrow>
           (occurrences s (pre @ s @ suf) = 1) = (s \<noteq> [] \<and> \<not> sublist s pre \<and> \<not> sublist s suf)"
    using iff sublist_before_slash[of s "CHR ''/''" pre] sublist_after_slash[of s "CHR ''/''" suf]
      assms(1,2,5) by auto
  show "occurrences (showInt n) (pre @ showInt n @ suf) = 1"
    using showInt_nonempty showInt_not_template assms(3) assms(6) by (rule occurrences_disjoint)
qed

lemma posts_literal: "''/posts/'' \<noteq> []" "last ''/posts/'' = CHR ''/''" "length ''/posts/'' = 7"
  and users_literal: "''/users/'' \<noteq> []" "last ''/users/'' = CHR ''/''" "length ''/users/'' = 7"
  and pet_literal: "''/pet/'' \<noteq> []" "last ''/pet/'' = CHR ''/''" "length ''/pet/'' = 5"
  and order_literal: "''/store/order/'' \<noteq> []" "last ''/store/order/'' = CHR ''/''" "length ''/store/order/'' = 13"
  and user_literal: "''/user/'' \<noteq> []" "last ''/user/'' = CHR ''/''" "length ''/user/'' = 6"
  and comments_literal: "''/comments'' \<noteq> []" "hd ''/comments'' = CHR ''/''"
  by simp_all

lemma safe_integer_text:
  "\<bar>n\<bar> \<le> 9007199254740991 \<Longrightarrow> stringify_id number_text (IdInt n) = showInt n"
  by simp

lemma jsonplaceholder_post_facts:
  assumes s: "s = stringify_id number_text idv"
  shows "prefix s (drop 7 (jsonplaceholder_post number_text idv))"
    and "(occurrences s (jsonplaceholder_post number_text idv) = 1) = (s \<noteq> [] \<and> \<not> sublist s (''/posts/'' @ butlast s))"
    and "(CHR ''/'' \<notin> set s \<longrightarrow>
        (occurrences s (jsonplaceholder_post number_text idv) = 1) = (s \<noteq> [] \<and> \<not> sublist s ''/posts/''))"
    and "(\<bar>n\<bar> \<le> 9007199254740991 \<longrightarrow>
        occurrences (showInt n) (jsonplaceholder_post number_text (IdInt n)) = 1)"
proof -
  note f = template_prefix_facts [OF posts_literal(1,2) template_literals(1), unfolded posts_literal(3)]
  show "prefix s (drop 7 (jsonplaceholder_post number_text idv))"
    unfolding jsonplaceholder_post_def s by (rule f(1))
  show "(occurrences s (jsonplaceholder_post number_text idv) = 1) = (s \<noteq> [] \<and> \<not> sublist s (''/posts/'' @ butlast s))"
    unfolding jsonplaceholder_post_def s by (rule f(2))
  show "(CHR ''/'' \<notin> set s \<longrightarrow>
        (occurrences s (jsonplaceholder_post number_text idv) = 1) = (s \<noteq> [] \<and> \<not> sublist s ''/posts/''))"
    unfolding jsonplaceholder_post_def s by (rule f(3))
  show "(\<bar>n\<bar> \<le> 9007199254740991 \<longrightarrow>
        occurrences (showInt n) (jsonplaceholder_post number_text (IdInt n)) = 1)"
    unfolding jsonplaceholder_post_def by (clarsimp simp only: stringify_id.simps if_True f(4))
qed

lemma jsonplaceholder_user_facts:
  assumes s: "s = stringify_id number_text idv"
  shows "prefix s (drop 7 (jsonplaceholder_user number_text idv))"
    and "(occurrences s (jsonplaceholder_user number_text idv) = 1) = (s \<noteq> [] \<and> \<not> sublist s (''/users/'' @ butlast s))"
    and "(CHR ''/'' \<notin> set s \<longrightarrow>
        (occurrences s (jsonplaceholder_user number_text idv) = 1) = (s \<noteq> [] \<and> \<not> sublist s ''/users/''))"
    and "(\<bar>n\<bar> \<le> 9007199254740991 \<longrightarrow>
        occurrences (showInt n) (jsonplaceholder_user number_text (IdInt n)) = 1)"
proof -
  note f = template_prefix_facts [OF users_literal(1,2) template_literals(2), unfolded users_literal(3)]
  show "prefix s (drop 7 (jsonplaceholder_user number_text idv))"
    unfolding jsonplaceholder_user_def s by (rule f(1))
  show "(occurrences s (jsonplaceholder_user number_text idv) = 1) = (s \<noteq> [] \<and> \<not> sublist s (''/users/'' @ butlast s))"
    unfolding jsonplaceholder_user_def s by (rule f(2))
  show "(CHR ''/'' \<notin> set s \<longrightarrow>
        (occurrences s (jsonplaceholder_user number_text idv) = 1) = (s \<noteq> [] \<and> \<not> sublist s ''/users/''))"
    unfolding jsonplaceholder_user_def s by (rule f(3))
  show "(\<bar>n\<bar> \<le> 9007199254740991 \<longrightarrow>
        occurrences (showInt n) (jsonplaceholder_user number_text (IdInt n)) = 1)"
    unfolding jsonplaceholder_user_def by (clarsimp simp only: stringify_id.simps if_True f(4))
qed

lemma jsonplaceholder_postComments_facts:
  assumes s: "s = stringify_id number_text idv"
  shows "prefix s (drop 7 (jsonplaceholder_postComments number_text idv))"
    and "(occurrences s (jsonplaceholder_postComments number_text idv) = 1)
        = (s \<noteq> [] \<and> \<not> sublist s (''/posts/'' @ butlast s) \<and> \<not> sublist s (tl s @ ''/comments''))"
    and "(CHR ''/'' \<notin> set s \<longrightarrow>
        (occurrences s (jsonplaceholder_postComments number_text idv) = 1)
          = (s \<noteq> [] \<and> \<not> sublist s ''/posts/'' \<and> \<not> sublist s ''/comments''))"
    and "(\<bar>n\<bar> \<le> 9007199254740991 \<longrightarrow>
        occurrences (showInt n) (jsonplaceholder_postComments number_text (IdInt n)) = 1)"
proof -
  note f = template_facts [OF posts_literal(1,2) template_literals(1) comments_literal template_literals(6),
      unfolded posts_literal(3)]
  show "prefix s (drop 7 (jsonplaceholder_postComments number_text idv))"
    unfolding jsonplaceholder_postComments_def s by (rule f(1))
  show "(occurrences s (jsonplaceholder_postComments number_text idv) = 1)
        = (s \<noteq> [] \<and> \<not> sublist s (''/posts/'' @ butlast s) \<and> \<not> sublist s (tl s @ ''/comments''))"
    unfolding jsonplaceholder_postComments_def s by (rule f(2))
  show "(CHR ''/'' \<notin> set s \<longrightarrow>
        (occurrences s (jsonplaceholder_postComments number_text idv) = 1)
          = (s \<noteq> [] \<and> \<not> sublist s ''/posts/'' \<and> \<not> sublist s ''/comments''))"
    unfolding jsonplaceholder_postComments_def s by (rule f(3))
  show "(\<bar>n\<bar> \<le> 9007199254740991 \<longrightarrow>
        occurrences (showInt n) (jsonplaceholder_postComments number_text (IdInt n)) = 1)"
    unfolding jsonplaceholder_postComments_def by (clarsimp simp only: stringify_id.simps if_True f(4))
qed

lemma reqres_user_facts:
  assumes s: "s = stringify_id number_text idv"
  shows "prefix s (drop 7 (reqres_user number_text idv))"
    and "(occurrences s (reqres_user number_text idv) = 1) = (s \<noteq> [] \<and> \<not> sublist s (''/users/'' @ butlast s))"
    and "(CHR ''/'' \<notin> set s \<longrightarrow>
        (occurrences s (reqres_user number_text idv) = 1) = (s \<noteq> [] \<and> \<not> sublist s ''/users/''))"
    and "(\<bar>n\<bar> \<le> 9007199254740991 \<longrightarrow>
        occurrences (showInt n) (reqres_user number_text (IdInt n)) = 1)"
proof -
  note f = template_prefix_facts [OF users_literal(1,2) template_literals(2), unfolded users_literal(3)]
  show "prefix s (drop 7 (reqres_user number_text idv))"
    unfolding reqres_user_def s by (rule f(1))
  show "(occurrences s (reqres_user number_text idv) = 1) = (s \<noteq> [] \<and> \<not> sublist s (''/users/'' @ butlast s))"
    unfolding reqres_user_def s by (rule f(2))
  show "(CHR ''/'' \<notin> set s \<longrightarrow>
        (occurrences s (reqres_user number_text idv) = 1) = (s \<noteq> [] \<and> \<not> sublist s ''/users/''))"
    unfolding reqres_user_def s by (rule f(3))
  show "(\<bar>n\<bar> \<le> 9007199254740991 \<longrightarrow>
        occurrences (showInt n) (reqres_user number_text (IdInt n)) = 1)"
    unfolding reqres_user_def by (clarsimp simp only: stringify_id.simps if_True f(4))
qed

lemma petstore_petById_facts:
  assumes s: "s = stringify_id number_text idv"
  shows "prefix s (drop 5 (petstore_petById number_text idv))"
    and "(occurrences s (petstore_petById number_text idv) = 1) = (s \<noteq> [] \<and> \<not> sublist s (''/pet/'' @ butlast s))"
    and "(CHR ''/'' \<notin> set s \<longrightarrow>
        (occurrences s (petstore_petById number_text idv) = 1) = (s \<noteq> [] \<and> \<not> sublist s ''/pet/''))"
    and "(\<bar>n\<bar> \<le> 9007199254740991 \<longrightarrow>
        occurrences (showInt n) (petstore_petById number_text (IdInt n)) = 1)"
proof -
  note f = template_prefix_facts [OF pet_literal(1,2) template_literals(3), unfolded pet_literal(3)]
  show "prefix s (drop 5 (petstore_petById number_text idv))"
    unfolding petstore_petById_def s by (rule f(1))
  show "(occurrences s (petstore_petById number_text idv) = 1) = (s \<noteq> [] \<and> \<not> sublist s (''/pet/'' @ butlast s))"
    unfolding petstore_petById_def s by (rule f(2))
  show "(CHR ''/'' \<notin> set s \<longrightarrow>
        (occurrences s (petstore_petById number_text idv) = 1) = (s \<noteq> [] \<and> \<not> sublist s ''/pet/''))"
    unfolding petstore_petById_def s by (rule f(3))
  show "(\<bar>n\<bar> \<le> 9007199254740991 \<longrightarrow>
        occurrences (showInt n) (petstore_petById number_text (IdInt n)) = 1)"
    unfolding petstore_petById_def by (clarsimp simp only: stringify_id.simps if_True f(4))
qed

lemma petstore_orderById_facts:
  assumes s: "s = stringify_id number_text idv"
  shows "prefix s (drop 13 (petstore_orderById number_text idv))"
    and "(occurrences s (petstore_orderById number_text idv) = 1) = (s \<noteq> [] \<and> \<not> sublist s (''/store/order/'' @ butlast s))"
    and "(CHR ''/'' \<notin> set s \<longrightarrow>
        (occurrences s (petstore_orderById number_text idv) = 1) = (s \<noteq> [] \<and> \<not> sublist s ''/store/order/''))"
    and "(\<bar>n\<bar> \<le> 9007199254740991 \<longrightarrow>
        occurrences (showInt n) (petstore_orderById number_text (IdInt n)) = 1)"
proof -
  note f = template_prefix_facts [OF order_literal(1,2) template_literals(4), unfolded order_literal(3)]
  show "prefix s (drop 13 (petstore_orderById number_text idv))"
    unfolding petstore_orderById_def s by (rule f(1))
  show "(occurrences s (petstore_orderById number_text idv) = 1) = (s \<noteq> [] \<and> \<not> sublist s (''/store/order/'' @ butlast s))"
    unfolding petstore_orderById_def s by (rule f(2))
  show "(CHR ''/'' \<notin> set s \<longrightarrow>
        (occurrences s (petstore_orderById number_text idv) = 1) = (s \<noteq> [] \<and> \<not> sublist s ''/store/order/''))"
    unfolding petstore_orderById_def s by (rule f(3))
  show "(\<bar>n\<bar> \<le> 9007199254740991 \<longrightarrow>
        occurrences (showInt n) (petstore_orderById number_text (IdInt n)) = 1)"
    unfolding petstore_orderById_def by (clarsimp simp only: stringify_id.simps if_True f(4))
qed

lemma petstore_userByUsername_facts:
  assumes s: "s = stringify_id number_text idv"
  shows "prefix s (drop 6 (petstore_userByUsername number_text idv))"
    and "(occurrences s (petstore_userByUsername number_text idv) = 1) = (s \<noteq> [] \<and> \<not> sublist s (''/user/'' @ butlast s))"
    and "(CHR ''/'' \<notin> set s \<longrightarrow>
        (occurrences s (petstore_userByUsername number_text idv) = 1) = (s \<noteq> [] \<and> \<not> sublist s ''/user/''))"
    and "(\<bar>n\<bar> \<le> 9007199254740991 \<longrightarrow>
        occurrences (showInt n) (petstore_userByUsername number_text (IdInt n)) = 1)"
proof -
  note f = template_prefix_facts [OF user_literal(1,2) template_literals(5), unfolded user_literal(3)]
  show "prefix s (drop 6 (petstore_userByUsername number_text idv))"
    unfolding petstore_userByUsername_def s by (rule f(1))
  show "(occurrences s (petstore_userByUsername number_text idv) = 1) = (s \<noteq> [] \<and> \<not> sublist s (''/user/'' @ butlast s))"
    unfolding petstore_userByUsername_def s by (rule f(2))
  show "(CHR ''/'' \<notin> set s \<longrightarrow>
        (occurrences s (petstore_userByUsername number_text idv) = 1) = (s \<noteq> [] \<and> \<not> sublist s ''/user/''))"
    unfolding petstore_userByUsername_def s by (rule f(3))
  show "(\<bar>n\<bar> \<le> 9007199254740991 \<longrightarrow>
        occurrences (showInt n) (petstore_userByUsername number_text (IdInt n)) = 1)"
    unfolding petstore_userByUsername_def by (clarsimp simp only: stringify_id.simps if_True f(4))
qed

text \<open>
  C7, as the code has it. In each template the stringified identifier \<open>s\<close> stands at the
  expected offset, right after the literal prefix. It occurs exactly once in the path if
  and only if it is not empty and does not start at a second position across the literal
  text: it is no part of the prefix followed by the identifier without its last
  character, nor (for \<open>postComments\<close>) of the identifier without its first character
  followed by \<open>/comments\<close>. For an identifier without a slash this says: it is not empty
  and no part of the literal prefix (nor of \<open>/comments\<close>). Every integer identifier of
  magnitude up to \<open>2^53 - 1\<close> occurs exactly once.
\<close>

theorem path_templates_identifier:
  assumes "s = stringify_id number_text idv"
  shows
  "prefix s (drop 7 (jsonplaceholder_post number_text idv))
   \<and> (occurrences s (jsonplaceholder_post number_text idv) = 1) = (s \<noteq> [] \<and> \<not> sublist s (''/posts/'' @ butlast s))
   \<and> (CHR ''/'' \<notin> set s \<longrightarrow>
        (occurrences s (jsonplaceholder_post number_text idv) = 1) = (s \<noteq> [] \<and> \<not> sublist s ''/posts/''))
   \<and> (\<bar>n\<bar> \<le> 9007199254740991 \<longrightarrow>
        occurrences (showInt n) (jsonplaceholder_post number_text (IdInt n)) = 1)
   \<and> prefix s (drop 7 (jsonplaceholder_user number_text idv))
   \<and> (occurrences s (jsonplaceholder_user number_text idv) = 1) = (s \<noteq> [] \<and> \<not> sublist s (''/users/'' @ butlast s))
   \<and> (CHR ''/'' \<notin> set s \<longrightarrow>
        (occurrences s (jsonplaceholder_user number_text idv) = 1) = (s \<noteq> [] \<and> \<not> sublist s ''/users/''))
   \<and> (\<bar>n\<bar> \<le> 9007199254740991 \<longrightarrow>
        occurrences (showInt n) (jsonplaceholder_user number_text (IdInt n)) = 1)
   \<and> prefix s (drop 7 (jsonplaceholder_postComments number_text idv))
   \<and> (occurrences s (jsonplaceholder_postComments number_text idv) = 1)
        = (s \<noteq> [] \<and> \<not> sublist s (''/posts/'' @ butlast s) \<and> \<not> sublist s (tl s @ ''/comments''))
   \<and> (CHR ''/'' \<notin> set s \<longrightarrow>
        (occurrences s (jsonplaceholder_postComments number_text idv) = 1)
          = (s \<noteq> [] \<and> \<not> sublist s ''/posts/'' \<and> \<not> sublist s ''/comments''))
   \<and> (\<bar>n\<bar> \<le> 9007199254740991 \<longrightarrow>
        occurrences (showInt n) (jsonplaceholder_postComments number_text (IdInt n)) = 1)
   \<and> prefix s (drop 7 (reqres_user number_text idv))
   \<and> (occurrences s (reqres_user number_text idv) = 1) = (s \<noteq> [] \<and> \<not> sublist s (''/users/'' @ butlast s))
   \<and> (CHR ''/'' \<notin> set s \<longrightarrow>
        (occurrences s (reqres_user number_text idv) = 1) = (s \<noteq> [] \<and> \<not> sublist s ''/users/''))
   \<and> (\<bar>n\<bar> \<le> 9007199254740991 \<longrightarrow>
        occurrences (showInt n) (reqres_user number_text (IdInt n)) = 1)
   \<and> prefix s (drop 5 (petstore_petById number_text idv))
   \<and> (occurrences s (petstore_petById number_text idv) = 1) = (s \<noteq> [] \<and> \<not> sublist s (''/pet/'' @ butlast s))
   \<and> (CHR ''/'' \<notin> set s \<longrightarrow>
        (occurrences s (petstore_petById number_text idv) = 1) = (s \<noteq> [] \<and> \<not> sublist s ''/pet/''))
   \<and> (\<bar>n\<bar> \<le> 9007199254740991 \<longrightarrow>
        occurrences (showInt n) (petstore_petById number_text (IdInt n)) = 1)
   \<and> prefix s (drop 13 (petstore_orderById number_text idv))
   \<and> (occurrences s (petstore_orderById number_text idv) = 1) = (s \<noteq> [] \<and> \<not> sublist s (''/store/order/'' @ butlast s))
   \<and> (CHR ''/'' \<notin> set s \<longrightarrow>
        (occurrences s (petstore_orderById number_text idv) = 1) = (s \<noteq> [] \<and> \<not> sublist s ''/store/order/''))
   \<and> (\<bar>n\<bar> \<le> 9007199254740991 \<longrightarrow>
        occurrences (showInt n) (petstore_orderById number_text (IdInt n)) = 1)
   \<and> prefix s (drop 6 (petstore_userByUsername number_text idv))
   \<and> (occurrences s (petstore_userByUsername number_text idv) = 1) = (s \<noteq> [] \<and> \<not> sublist s (''/user/'' @ butlast s))
   \<and> (CHR ''/'' \<notin> set s \<longrightarrow>
        (occurrences s (petstore_userByUsername number_text idv) = 1) = (s \<noteq> [] \<and> \<not> sublist s ''/user/''))
   \<and> (\<bar>n\<bar> \<le> 9007199254740991 \<longrightarrow>
        occurrences (showInt n) (petstore_userByUsername number_text (IdInt n)) = 1)"
  by (intro conjI jsonplaceholder_post_facts [OF assms]
        jsonplaceholder_user_facts [OF assms]
        jsonplaceholder_postComments_facts [OF assms]
        reqres_user_facts [OF assms]
        petstore_petById_facts [OF assms]
        petstore_orderById_facts [OF assms]
        petstore_userByUsername_facts [OF assms])

theorem path_templates_identifier_witness:
  "CHR ''/'' \<notin> set ''user1'' \<and> ''user1'' \<noteq> [] \<and> \<not> sublist ''user1'' ''/user/''
   \<and> occurrences ''user1'' (petstore_userByUsername (\<lambda>i. ''1e+21'') (IdStr ''user1'')) = 1
   \<and> \<bar>7 :: int\<bar> \<le> 9007199254740991
   \<and> occurrences ''7'' (jsonplaceholder_postComments (\<lambda>i. ''1e+21'') (IdInt 7)) = 1"
proof -
  have a: "\<not> sublist ''user1'' ''/user/''"
    by (simp add: sublist_code)
  have b: "showInt 7 = ''7''"
    by (simp add: showInt_def showNat.simps)
  show ?thesis
    using path_templates_identifier [of "''user1''" "\<lambda>i. ''1e+21''" "IdStr ''user1''" 7] a b by simp
qed

text \<open>
  The claim as stated fails for identifiers that are strings: the user name \<open>user\<close>
  gives the path \<open>/user/user\<close>, in which it occurs twice.
\<close>

theorem path_templates_counterexample:
  "petstore_userByUsername (\<lambda>i. ''1e+21'') (IdStr ''user'') = ''/user/user''
   \<and> occurrences (stringify_id (\<lambda>i. ''1e+21'') (IdStr ''user''))
         (petstore_userByUsername (\<lambda>i. ''1e+21'') (IdStr ''user'')) = 2"
  by (simp add: petstore_userByUsername_def)

subsection \<open>The schema validator\<close>

lemma scan_path_plain:
  assumes "key \<noteq> []" "list_all name_char key"
  shows "scan_path key = [key]"
proof -
  obtain c cs where key: "key = c # cs" using assms(1) by (cases key) auto
  have tw: "takeWhile name_char (c # cs) = c # cs" and dw: "dropWhile name_char (c # cs) = []"
    using assms(2) unfolding key by (simp_all add: list_all_iff)
  have "name_char c" using assms(2) by (simp add: key)
  then have "scan_path (c # cs) = takeWhile name_char (c # cs) # scan_path (dropWhile name_char (c # cs))"
    by simp
  then show ?thesis unfolding tw dw key by simp
qed

lemma pathAsArray_plain: "list_all name_char key \<Longrightarrow> pathAsArray key = [key]"
proof (cases key)
  case Nil
  then show ?thesis by (simp add: pathAsArray_def)
next
  case (Cons c cs)
  assume "list_all name_char key"
  moreover from this Cons have "hd key \<noteq> CHR ''.''" by (simp add: name_char_def)
  ultimately show ?thesis using Cons by (simp add: pathAsArray_def scan_path_plain del: scan_path.simps)
qed

lemma get_value_defined: "get_value members obj key \<noteq> JUndefined \<Longrightarrow> has_property members obj key"
  by (auto simp: get_value_def has_property_def split: if_splits option.splits)

lemma typeof_object_cases:
  "typeof v = ''object'' \<Longrightarrow> v = JNull \<or> \<not> isPrimitive v"
  by (cases v) auto

lemma hasEndProp_object:
  "typeof obj = ''object'' \<Longrightarrow> obj \<noteq> JNull \<Longrightarrow>
     hasEndProp members obj [key] = has_property members obj key"
  using get_value_defined[of members obj key] typeof_object_cases[of obj] by auto

lemma toHaveProperty_plain:
  assumes "list_all name_char key" "typeof data = ''object''"
  shows "(toHaveProperty members data key = Inr ()) = has_property members data key"
proof (cases "data = JNull")
  case True
  then show ?thesis by (simp add: toHaveProperty_def has_property_def)
next
  case False
  with assms(2) have "\<not> nullish data" by (cases data) auto
  with assms False show ?thesis
    by (simp add: toHaveProperty_def pathAsArray_plain hasEndProp_object del: hasEndProp.simps)
qed

lemma seq_ok:
  fixes c :: "js_error + unit"
  shows "((case c of Inl e \<Rightarrow> Inl e | Inr u \<Rightarrow> k) = Inr ()) = (c = Inr () \<and> k = Inr ())"
  by (cases c) auto

lemma toBe_ok: "(toBe a b = Inr ()) = (a = b)"
  by (simp add: toBe_def)

lemma array_check_ok:
  "((case get_prop members data key of
       Inl e \<Rightarrow> Inl e
     | Inr v \<Rightarrow> toBe (JBool (isArray v)) (JBool True)) = Inr ())
     = isArray (get_value members data key)"
  by (simp add: get_prop_def toBe_def get_value_def)

lemma typeof_object_present:
  "typeof (get_value members data key) = ''object'' \<Longrightarrow> has_property members data key"
  by (rule get_value_defined) auto

lemma validate_conforms:
  "schema_shape es \<Longrightarrow> plain_keys es \<Longrightarrow> typeof data = ''object'' \<Longrightarrow>
     (validateEntries members data es = Inr ()) = conforms members data es"
proof (induction es arbitrary: data rule: schema_shape.induct)
  case 1
  then show ?case by simp
next
  case (2 key expectedType rest)
  from "2.prems" have pk: "list_all name_char key"
    and r: "schema_shape rest" "plain_keys rest" by auto
  have rest: "(validateEntries members data rest = Inr ()) = conforms members data rest"
    using "2.IH"(2) r "2.prems"(3) by simp
  have present: "(toHaveProperty members data key = Inr ()) = has_property members data key"
    using pk "2.prems"(3) by (rule toHaveProperty_plain)
  show ?case
  proof (cases expectedType)
    case (JStr s)
    then show ?thesis
      by (simp add: seq_ok toBe_ok array_check_ok present rest)
  next
    case (JObj nested)
    with "2.prems" have "schema_shape nested" "plain_keys nested" by auto
    with "2.IH"(1) JObj
    have nested: "(validateEntries members v nested = Inr ()) = conforms members v nested"
      if "typeof v = ''object''" for v using that by simp
    from JObj show ?thesis
      using typeof_object_present[of members data key] nested[of "get_value members data key"]
      by (auto simp: seq_ok toBe_ok present rest)
  qed (use "2.prems" in auto)
qed

lemma validate_error_kinds:
  "validateEntries members data es = Inr ()
   \<or> validateEntries members data es = Inl AssertionFailure
   \<or> validateEntries members data es = Inl MatcherError
   \<or> validateEntries members data es = Inl TypeError"
  by (induction members data es rule: validateEntries.induct)
     (auto simp: toHaveProperty_def toBe_def get_prop_def split: sum.splits jsval.splits if_splits)

lemma validate_assertion_only:
  "schema_shape es \<Longrightarrow> \<not> nullish data \<Longrightarrow> nested_not_null members data es \<Longrightarrow>
     validateEntries members data es = Inr () \<or> validateEntries members data es = Inl AssertionFailure"
proof (induction es arbitrary: data rule: schema_shape.induct)
  case 1
  then show ?case by simp
next
  case (2 key expectedType rest)
  from "2.prems" "2.IH"(2)
  have rest: "validateEntries members data rest = Inr ()
      \<or> validateEntries members data rest = Inl AssertionFailure" by simp
  show ?case
  proof (cases expectedType)
    case (JStr s)
    with rest "2.prems" show ?thesis
      by (auto simp: toHaveProperty_def toBe_def get_prop_def split: sum.splits if_splits)
  next
    case (JObj nested)
    have "validateEntries members (get_value members data key) nested = Inr ()
        \<or> validateEntries members (get_value members data key) nested = Inl AssertionFailure"
      if "typeof (get_value members data key) = ''object''"
    proof -
      from "2.prems" JObj have nn: "get_value members data key \<noteq> JNull"
        and nst: "nested_not_null members (get_value members data key) nested"
        and sh: "schema_shape nested" by auto
      from that nn have "\<not> nullish (get_value members data key)"
        by (cases "get_value members data key") auto
      with "2.IH"(1)[OF JObj sh] nst show ?thesis by simp
    qed
    with rest JObj "2.prems"(2) show ?thesis
      by (auto simp: toHaveProperty_def toBe_def split: sum.splits if_splits)
  qed (use "2.prems" in auto)
qed

lemma validateSchema_nested_call:
  "typeof expectedType = ''object'' \<Longrightarrow> \<not> isArray expectedType \<Longrightarrow>
     validateSchema members v expectedType
       = (case expectedType of
            JObj nested \<Rightarrow> validateEntries members v nested
          | JBuiltin n \<Rightarrow> Inr ()
          | other \<Rightarrow> Inl TypeError)"
  by (cases expectedType) (auto simp: validateSchema_def)

text \<open>
  C1, as the code has it. For every engine, every data value of type \<open>object\<close> (an
  object, an array or \<open>null\<close>) and every schema whose fields are declared with type
  names, with \<open>array\<close> or with nested schemas, and whose field names at every level hold
  none of the characters \<open>.\<close>, \<open>[\<close> and \<open>]\<close>: \<open>validateSchema\<close> returns exactly when
  every field declared with a type name is present on the data, as its own or as an
  inherited member, with that \<open>typeof\<close>, every field declared \<open>array\<close> holds an array,
  and every field declared with a nested schema holds a value of type \<open>object\<close> that
  satisfies the nested schema. Otherwise it throws: an assertion failure of a matcher,
  the matcher's error about a \<open>null\<close> received value, or a TypeError; it is an assertion
  failure whenever the data is not \<open>null\<close> and no field declared with a nested schema,
  at any level, holds \<open>null\<close>.
\<close>

theorem validateSchema_accepts_iff_conforms:
  assumes "schema_shape es" and "plain_keys es" and "typeof data = ''object''"
  shows "(validateSchema members data (JObj es) = Inr ()) = conforms members data es
    \<and> (conforms members data es
         \<or> validateSchema members data (JObj es) = Inl AssertionFailure
         \<or> validateSchema members data (JObj es) = Inl MatcherError
         \<or> validateSchema members data (JObj es) = Inl TypeError)
    \<and> (data \<noteq> JNull \<and> nested_not_null members data es \<longrightarrow>
         conforms members data es \<or> validateSchema members data (JObj es) = Inl AssertionFailure)"
proof -
  have eq: "(validateEntries members data es = Inr ()) = conforms members data es"
    using assms by (rule validate_conforms)
  have kinds: "validateEntries members data es = Inr ()
     \<or> validateEntries members data es = Inl AssertionFailure
     \<or> validateEntries members data es = Inl MatcherError
     \<or> validateEntries members data es = Inl TypeError"
    by (rule validate_error_kinds)
  have "validateEntries members data es = Inr () \<or> validateEntries members data es = Inl AssertionFailure"
    if "data \<noteq> JNull" "nested_not_null members data es"
  proof -
    from assms(3) that(1) have "\<not> nullish data" by (cases data) auto
    with assms(1) show ?thesis using that(2) by (rule validate_assertion_only)
  qed
  with eq kinds show ?thesis
    by (auto simp: validateSchema_def)
qed


theorem validateSchema_accepts_iff_conforms_witness:
  "schema_shape
     [(''id'', JStr ''number''), (''tags'', JStr ''array''),
      (''address'', JObj [(''city'', JStr ''string''), (''geo'', JObj [(''lat'', JStr ''string'')])])]
   \<and> plain_keys
     [(''id'', JStr ''number''), (''tags'', JStr ''array''),
      (''address'', JObj [(''city'', JStr ''string''), (''geo'', JObj [(''lat'', JStr ''string'')])])]
   \<and> validateSchema plain_object_members
       (JObj [(''id'', JNum 1), (''tags'', JArr [JNum 1, JStr ''x'']),
              (''address'', JObj [(''city'', JStr ''Gwenborough''), (''geo'', JObj [(''lat'', JStr ''-37.3159'')])])])
       (JObj [(''id'', JStr ''number''), (''tags'', JStr ''array''),
              (''address'', JObj [(''city'', JStr ''string''), (''geo'', JObj [(''lat'', JStr ''string'')])])])
     = Inr ()
   \<and> validateSchema plain_object_members
       (JObj [(''id'', JStr ''1''), (''tags'', JArr []),
              (''address'', JObj [(''city'', JStr ''Gwenborough''), (''geo'', JObj [(''lat'', JStr ''-37.3159'')])])])
       (JObj [(''id'', JStr ''number''), (''tags'', JStr ''array''),
              (''address'', JObj [(''city'', JStr ''string''), (''geo'', JObj [(''lat'', JStr ''string'')])])])
     = Inl AssertionFailure"
proof -
  let ?schema = "[(''id'', JStr ''number''), (''tags'', JStr ''array''),
      (''address'', JObj [(''city'', JStr ''string''), (''geo'', JObj [(''lat'', JStr ''string'')])])]"
  let ?good = "JObj [(''id'', JNum 1), (''tags'', JArr [JNum 1, JStr ''x'']),
      (''address'', JObj [(''city'', JStr ''Gwenborough''), (''geo'', JObj [(''lat'', JStr ''-37.3159'')])])]"
  let ?bad = "JObj [(''id'', JStr ''1''), (''tags'', JArr []),
      (''address'', JObj [(''city'', JStr ''Gwenborough''), (''geo'', JObj [(''lat'', JStr ''-37.3159'')])])]"
  have shape: "schema_shape ?schema" by simp
  have plain: "plain_keys ?schema" by (simp add: name_char_def)
  have good: "typeof ?good = ''object''" and bad: "typeof ?bad = ''object''" by simp_all
  show ?thesis
    using shape plain
      validateSchema_accepts_iff_conforms [OF shape plain good, of plain_object_members]
      validateSchema_accepts_iff_conforms [OF shape plain bad, of plain_object_members]
    by (simp add: get_value_def has_property_def)
qed

text \<open>
  The rejection of a dotted field name does not depend on the engine, as long as the
  object has no member named by the part before the dot; and an inherited member
  satisfies a declaration.
\<close>

lemma dotted_key_rejected:
  "members (JObj [(''a.b'', v)]) ''a'' = None \<Longrightarrow> t \<noteq> ''array'' \<Longrightarrow>
     validateSchema members (JObj [(''a.b'', v)]) (JObj [(''a.b'', JStr t)]) = Inl AssertionFailure"
  by (simp add: validateSchema_def toHaveProperty_def pathAsArray_def name_char_def get_value_def)

lemma inherited_member_accepted:
  "validateSchema plain_object_members (JObj []) (JObj [(''constructor'', JStr ''function'')]) = Inr ()"
  by (simp add: validateSchema_def toHaveProperty_def toBe_def pathAsArray_def name_char_def
        get_value_def has_property_def plain_object_members_def object_prototype_functions_def)

text \<open>
  The claim as stated fails on a field name with a dot: \<open>toHaveProperty\<close> reads \<open>a.b\<close> as
  the member \<open>b\<close> of the member \<open>a\<close>, so the data \<open>{"a.b": 1}\<close> is rejected by the schema
  \<open>{"a.b": "number"}\<close> although the declared field is present with the declared type.
  And a violation is not always an assertion failure: reading an \<open>array\<close> field from a
  nested value that is \<open>null\<close> throws a TypeError.
\<close>

theorem validateSchema_counterexample:
  "schema_shape [(''a.b'', JStr ''number'')]
   \<and> typeof (JObj [(''a.b'', JNum 1)]) = ''object''
   \<and> conforms plain_object_members (JObj [(''a.b'', JNum 1)]) [(''a.b'', JStr ''number'')]
   \<and> validateSchema plain_object_members (JObj [(''a.b'', JNum 1)]) (JObj [(''a.b'', JStr ''number'')])
       = Inl AssertionFailure
   \<and> validateSchema plain_object_members (JObj [(''a'', JNull)]) (JObj [(''a'', JObj [(''x'', JStr ''array'')])])
       = Inl TypeError"
  by (simp add: validateSchema_def toHaveProperty_def toBe_def get_prop_def pathAsArray_def
        name_char_def get_value_def has_property_def plain_object_members_def
        object_prototype_functions_def)

end
